theory Spec2Isabelle
  imports Main
begin

section \<open>SQL history (SqlConsole: the setSqlHistory updater of executeQuery)\<close>

definition slice_last :: "nat \<Rightarrow> 'a list \<Rightarrow> 'a list" where
  \<comment> \<open>\<^verbatim>\<open>xs.slice(-n)\<close> for a positive \<open>n\<close>: the start index is \<open>max (length - n) 0\<close>.\<close>
  "slice_last n xs = drop (length xs - n) xs"

definition updateHistory :: "string list \<Rightarrow> string \<Rightarrow> string list" where
  "updateHistory prev sql =
     (if \<not> List.member prev sql then slice_last 10 (prev @ [sql]) else prev)"

section \<open>JavaScript values and their serialisation\<close>

text \<open>
  The values the application hands to the persistence helper and keeps in result rows:
  primitives (for which \<^verbatim>\<open>typeof\<close> is not \<^verbatim>\<open>'object'\<close>), \<^verbatim>\<open>null\<close>, arrays and plain objects
  with their keys in insertion order. A number \<open>PNum n\<close> is an integer that JavaScript holds
  exactly and writes with all its digits, one below \<open>2 ^ 53\<close> in size (\<open>safe_numbers\<close>
  below); for another \<open>n\<close> the texts of \<open>String_prim\<close> and \<open>JSON_stringify\<close> are not those
  of JavaScript. \<open>PNaN\<close> is the number \<^verbatim>\<open>NaN\<close>; \<open>PBigInt\<close> is a \<^verbatim>\<open>bigint\<close>, which the engine
  returns for large 8-byte integers.
\<close>

datatype jsprim = PBool bool | PNum int | PNaN | PBigInt int | PStr string

datatype jsvalue = Prim jsprim | JNull | JArr "jsvalue list" | JObj "(string \<times> jsvalue) list"

type_synonym row = "(string \<times> jsvalue) list"

fun safe_numbers :: "jsvalue \<Rightarrow> bool"
  and safe_elements :: "jsvalue list \<Rightarrow> bool"
  and safe_members :: "(string \<times> jsvalue) list \<Rightarrow> bool" where
  "safe_numbers (Prim (PNum n)) = (- 9007199254740992 < n \<and> n < 9007199254740992)"
| "safe_numbers (Prim p) = True"
| "safe_numbers JNull = True"
| "safe_numbers (JArr vs) = safe_elements vs"
| "safe_numbers (JObj ms) = safe_members ms"
| "safe_elements [] = True"
| "safe_elements (v # vs) = (safe_numbers v \<and> safe_elements vs)"
| "safe_members [] = True"
| "safe_members (m # ms) = (safe_numbers (snd m) \<and> safe_members ms)"

definition digit_char :: "nat \<Rightarrow> char" where
  "digit_char n = ''0123456789abcdef'' ! (n mod 16)"

function nat_to_string :: "nat \<Rightarrow> string" where
  "nat_to_string n =
     (if n < 10 then [digit_char n]
      else nat_to_string (n div 10) @ [digit_char (n mod 10)])"
  by pat_completeness auto
termination
  by (relation "measure (\<lambda>n. n)") auto

declare nat_to_string.simps [simp del]

definition int_to_string :: "int \<Rightarrow> string" where
  "int_to_string i =
     (if i < 0 then CHR ''-'' # nat_to_string (nat (- i)) else nat_to_string (nat i))"

fun join :: "string \<Rightarrow> string list \<Rightarrow> string" where
  "join sep [] = []"
| "join sep [x] = x"
| "join sep (x # y # ys) = x @ sep @ join sep (y # ys)"

definition escape_char :: "char \<Rightarrow> string" where
  "escape_char c =
     (let n = (of_char c :: nat) in
      if n = 0x22 then [CHR 0x5C, CHR 0x22]
      else if n = 0x5C then [CHR 0x5C, CHR 0x5C]
      else if n = 8 then [CHR 0x5C, CHR ''b'']
      else if n = 9 then [CHR 0x5C, CHR ''t'']
      else if n = 10 then [CHR 0x5C, CHR ''n'']
      else if n = 12 then [CHR 0x5C, CHR ''f'']
      else if n = 13 then [CHR 0x5C, CHR ''r'']
      else if n < 0x20
        then [CHR 0x5C, CHR ''u'', CHR ''0'', CHR ''0'', digit_char (n div 16), digit_char (n mod 16)]
      else [c])"

definition quote_json :: "string \<Rightarrow> string" where
  "quote_json s = CHR 0x22 # concat (map escape_char s) @ [CHR 0x22]"

text \<open>\<^verbatim>\<open>String(value)\<close> on a primitive.\<close>

fun String_prim :: "jsprim \<Rightarrow> string" where
  "String_prim (PBool b) = (if b then ''true'' else ''false'')"
| "String_prim (PNum n) = int_to_string n"
| "String_prim PNaN = ''NaN''"
| "String_prim (PBigInt n) = int_to_string n"
| "String_prim (PStr s) = s"

text \<open>
  \<^verbatim>\<open>JSON.stringify(value)\<close>; \<open>None\<close> is the \<^verbatim>\<open>TypeError\<close> it throws when the value holds a
  \<^verbatim>\<open>bigint\<close> anywhere.
\<close>

fun JSON_stringify :: "jsvalue \<Rightarrow> string option"
  and stringify_elements :: "jsvalue list \<Rightarrow> string list option"
  and stringify_members :: "(string \<times> jsvalue) list \<Rightarrow> string list option" where
  "JSON_stringify (Prim (PBool b)) = Some (if b then ''true'' else ''false'')"
| "JSON_stringify (Prim (PNum n)) = Some (int_to_string n)"
| "JSON_stringify (Prim PNaN) = Some ''null''"
| "JSON_stringify (Prim (PBigInt n)) = None"
| "JSON_stringify (Prim (PStr s)) = Some (quote_json s)"
| "JSON_stringify JNull = Some ''null''"
| "JSON_stringify (JArr vs) =
     (case stringify_elements vs of None \<Rightarrow> None
      | Some ts \<Rightarrow> Some (''['' @ join '','' ts @ '']''))"
| "JSON_stringify (JObj ms) =
     (case stringify_members ms of None \<Rightarrow> None
      | Some ts \<Rightarrow> Some (''{'' @ join '','' ts @ ''}''))"
| "stringify_elements [] = Some []"
| "stringify_elements (v # vs) =
     (case JSON_stringify v of None \<Rightarrow> None
      | Some t \<Rightarrow> (case stringify_elements vs of None \<Rightarrow> None | Some ts \<Rightarrow> Some (t # ts)))"
| "stringify_members [] = Some []"
| "stringify_members ((k, v) # ms) =
     (case JSON_stringify v of None \<Rightarrow> None
      | Some t \<Rightarrow>
          (case stringify_members ms of None \<Rightarrow> None
           | Some ts \<Rightarrow> Some ((quote_json k @ '':'' @ t) # ts)))"

text \<open>
  Line 169 of db.ts:
  \<^verbatim>\<open>typeof value === 'object' ? JSON.stringify(value) : String(value)\<close>.
\<close>

fun stringValue_of :: "jsvalue \<Rightarrow> string option" where
  "stringValue_of (Prim p) = Some (String_prim p)"
| "stringValue_of v = JSON_stringify v"

section \<open>Derived age (SqlConsole: calculateAge)\<close>

text \<open>
  The calendar fields that \<^verbatim>\<open>getFullYear()\<close>, \<^verbatim>\<open>getMonth()\<close> and \<^verbatim>\<open>getDate()\<close> read off a
  JavaScript \<^verbatim>\<open>Date\<close>, in local time; the month counts from 0.
\<close>

record jsdate =
  getFullYear :: int
  getMonth :: int
  getDate :: int

definition ymd :: "int \<Rightarrow> int \<Rightarrow> int \<Rightarrow> jsdate" where
  "ymd y m d = \<lparr>getFullYear = y, getMonth = m - 1, getDate = d\<rparr>"

text \<open>
  \<^verbatim>\<open>new Date(dateOfBirth)\<close>. The form stores the birth date as the date-only text
  \<^verbatim>\<open>YYYY-MM-DD\<close>. The runtime reads such a text, when it names a day of the calendar, as
  midnight UTC of that day, and the getters answer in local time: with \<open>zone\<close> the minutes
  the local time is ahead of UTC at that instant (more than a day in neither direction),
  the local day is the day of the text when \<open>zone\<close> is not negative and the day before it
  when \<open>zone\<close> is negative. What the runtime makes of any other value is the parameter
  \<open>other\<close> (\<open>None\<close>: an invalid date).
\<close>

definition leap_year :: "int \<Rightarrow> bool" where
  "leap_year y = (y mod 4 = 0 \<and> (y mod 100 \<noteq> 0 \<or> y mod 400 = 0))"

definition days_in_month :: "int \<Rightarrow> int \<Rightarrow> int" where
  "days_in_month y m =
     (if m = 2 then (if leap_year y then 29 else 28)
      else if m = 4 \<or> m = 6 \<or> m = 9 \<or> m = 11 then 30 else 31)"

definition digit_value :: "char \<Rightarrow> int option" where
  "digit_value c = map_of (zip ''0123456789'' [0, 1, 2, 3, 4, 5, 6, 7, 8, 9]) c"

fun digits_value :: "int \<Rightarrow> string \<Rightarrow> int option" where
  "digits_value acc [] = Some acc"
| "digits_value acc (c # cs) =
     (case digit_value c of None \<Rightarrow> None | Some d \<Rightarrow> digits_value (10 * acc + d) cs)"

definition date_only :: "string \<Rightarrow> (int \<times> int \<times> int) option" where
  "date_only text =
     (case text of
        [y1, y2, y3, y4, s1, m1, m2, s2, d1, d2] \<Rightarrow>
          if s1 = CHR ''-'' \<and> s2 = CHR ''-''
          then (case (digits_value 0 [y1, y2, y3, y4], digits_value 0 [m1, m2],
                      digits_value 0 [d1, d2]) of
                  (Some y, Some m, Some d) \<Rightarrow>
                    if 1 \<le> m \<and> m \<le> 12 \<and> 1 \<le> d \<and> d \<le> days_in_month y m
                    then Some (y, m, d) else None
                | _ \<Rightarrow> None)
          else None
      | _ \<Rightarrow> None)"

definition local_day :: "int \<Rightarrow> int \<times> int \<times> int \<Rightarrow> jsdate" where
  "local_day zone day =
     (case day of (y, m, d) \<Rightarrow>
        if 0 \<le> zone then ymd y m d
        else if 1 < d then ymd y m (d - 1)
        else if 1 < m then ymd y (m - 1) (days_in_month y (m - 1))
        else ymd (y - 1) 12 31)"

definition new_Date :: "int \<Rightarrow> (jsvalue \<Rightarrow> jsdate option) \<Rightarrow> jsvalue \<Rightarrow> jsdate option" where
  "new_Date zone other v =
     (case v of
        Prim (PStr text) \<Rightarrow>
          (case date_only text of Some day \<Rightarrow> Some (local_day zone day) | None \<Rightarrow> other v)
      | _ \<Rightarrow> other v)"

text \<open>
  \<open>calculateAge\<close>, lines 13 to 25 of SqlConsole.tsx. \<open>today\<close> is what the getters read off
  \<^verbatim>\<open>new Date()\<close>; \<open>dateOfBirth\<close> is the cell the caller passes; the result \<open>None\<close> is \<^verbatim>\<open>NaN\<close>,
  which the arithmetic gives for an invalid date.
\<close>

definition calculateAge ::
  "int \<Rightarrow> (jsvalue \<Rightarrow> jsdate option) \<Rightarrow> jsdate \<Rightarrow> jsvalue \<Rightarrow> int option" where
  "calculateAge zone other today dateOfBirth =
     (case new_Date zone other dateOfBirth of
        None \<Rightarrow> None
      | Some dob \<Rightarrow>
          let age = getFullYear today - getFullYear dob;
              monthDifference = getMonth today - getMonth dob
          in if monthDifference < 0 \<or> (monthDifference = 0 \<and> getDate today < getDate dob)
             then Some (age - 1) else Some age)"

text \<open>
  The words of the specification, for comparison with the code: a calendar day is on or
  before another one (year, then month, then day of month), and the anniversary of a
  date \<open>n\<close> years later.
\<close>

definition on_or_before :: "jsdate \<Rightarrow> jsdate \<Rightarrow> bool" where
  "on_or_before a b =
     (getFullYear a < getFullYear b \<or>
      (getFullYear a = getFullYear b \<and>
        (getMonth a < getMonth b \<or> (getMonth a = getMonth b \<and> getDate a \<le> getDate b))))"

definition anniversary :: "int \<Rightarrow> jsdate \<Rightarrow> jsdate" where
  "anniversary n d = d\<lparr>getFullYear := getFullYear d + n\<rparr>"

section \<open>The embedded store (db.ts: initializeDb)\<close>

text \<open>
  The three tables of the schema, each a list of rows in insertion order. The columns
  declared without \<^verbatim>\<open>NOT NULL\<close> are optional. A row of \<^verbatim>\<open>form_persistence\<close>
  \<^verbatim>\<open>(form_id, form_data, updated_at)\<close> and a row of \<^verbatim>\<open>sql_settings\<close> \<^verbatim>\<open>(key, value, updated_at)\<close>
  have the same shape: a primary key, a text and a time stamp.
\<close>

record patients_row =
  p_id :: string
  p_first_name :: string
  p_last_name :: string
  p_date_of_birth :: string
  p_gender :: string
  p_email :: "string option"
  p_phone :: "string option"
  p_address :: "string option"
  p_insurance_provider :: "string option"
  p_insurance_number :: "string option"
  p_medical_conditions :: "string option"
  p_medications :: "string option"
  p_allergies :: "string option"
  p_created_at :: string
  p_updated_at :: string

record kv_row =
  row_key :: string
  row_value :: string
  row_updated_at :: string

datatype error = TypeError string | DbError string | SyntaxError string

type_synonym 'a result = "error + 'a"

text \<open>
  The engine does not take every value it is asked to write. \<open>refusal\<close> is its answer to
  the values bound to the parameters of an \<^verbatim>\<open>INSERT\<close>: the error that \<^verbatim>\<open>db.query\<close> throws for
  them, writing nothing, or \<open>None\<close> when it takes them. \<open>pg_refusal\<close> is the refusal every
  PostgreSQL engine makes: a text that holds U+0000.
\<close>

record store =
  patients :: "patients_row list"
  form_persistence :: "kv_row list"
  sql_settings :: "kv_row list"
  refusal :: "string list \<Rightarrow> error option"

definition pg_refusal :: "string list \<Rightarrow> error option" where
  "pg_refusal params =
     (if list_ex (\<lambda>p. CHR 0x00 \<in> set p) params
      then Some (DbError (''invalid byte sequence for encoding '' @ [CHR 0x22] @ ''UTF8''
                          @ [CHR 0x22] @ '': 0x00''))
      else None)"

text \<open>
  \<^verbatim>\<open>INSERT INTO t (k, v, updated_at) VALUES ($1, $2, $3)
  ON CONFLICT (k) DO UPDATE SET v = $2, updated_at = $3\<close>:
  the row with the key is rewritten where it stands, a new row is added at the end.
\<close>

fun upsert :: "string \<Rightarrow> string \<Rightarrow> string \<Rightarrow> kv_row list \<Rightarrow> kv_row list" where
  "upsert k v now [] = [\<lparr>row_key = k, row_value = v, row_updated_at = now\<rparr>]"
| "upsert k v now (r # rs) =
     (if row_key r = k then r\<lparr>row_value := v, row_updated_at := now\<rparr> # rs
      else r # upsert k v now rs)"

text \<open>\<^verbatim>\<open>SELECT value FROM t WHERE key = $1\<close>: the values of the rows with that key.\<close>

definition select_value :: "string \<Rightarrow> kv_row list \<Rightarrow> string list" where
  "select_value k rs = map row_value (filter (\<lambda>r. row_key r = k) rs)"

text \<open>\<^verbatim>\<open>DELETE FROM t WHERE key IN (...)\<close>.\<close>

definition delete_keys :: "string list \<Rightarrow> kv_row list \<Rightarrow> kv_row list" where
  "delete_keys ks rs = filter (\<lambda>r. row_key r \<notin> set ks) rs"

section \<open>The persistence helper (db.ts: saveToPGlite)\<close>

text \<open>
  The handle \<open>db\<close> is \<open>None\<close> while the store is not open. The function returns how the
  call ended (\<open>Inl\<close>: the promise is rejected with that error) and the handle with the
  store as the call left it. \<open>now\<close> is the reading of the clock,
  \<^verbatim>\<open>new Date().toISOString()\<close>. What \<^verbatim>\<open>db.query\<close> throws is thrown again by the \<^verbatim>\<open>catch\<close>.
\<close>

definition saveToPGlite ::
  "store option \<Rightarrow> string \<Rightarrow> string \<Rightarrow> jsvalue \<Rightarrow> string \<Rightarrow> unit result \<times> store option" where
  "saveToPGlite db tableName key val now =
     (case db of
        None \<Rightarrow> (Inr (), None)
      | Some s \<Rightarrow>
          (case stringValue_of val of
             None \<Rightarrow> (Inl (TypeError ''Do not know how to serialize a BigInt''), Some s)
           | Some stringValue \<Rightarrow>
               if tableName = ''form_persistence''
               then (case refusal s [key, stringValue, now] of
                       Some err \<Rightarrow> (Inl err, Some s)
                     | None \<Rightarrow>
                         (Inr (), Some (s\<lparr>form_persistence :=
                                          upsert key stringValue now (form_persistence s)\<rparr>)))
               else if tableName = ''sql_settings''
               then (case refusal s [key, stringValue, now] of
                       Some err \<Rightarrow> (Inl err, Some s)
                     | None \<Rightarrow>
                         (Inr (), Some (s\<lparr>sql_settings :=
                                          upsert key stringValue now (sql_settings s)\<rparr>)))
               else (Inr (), Some s)))"

text \<open>The table a name of the helper stands for, and repeated calls at successive times.\<close>

definition table_of :: "string \<Rightarrow> store \<Rightarrow> kv_row list" where
  "table_of tableName s =
     (if tableName = ''form_persistence'' then form_persistence s
      else if tableName = ''sql_settings'' then sql_settings s else [])"

definition save_repeatedly ::
  "string \<Rightarrow> string \<Rightarrow> jsvalue \<Rightarrow> string list \<Rightarrow> store option \<Rightarrow> store option" where
  "save_repeatedly tableName key val nows db =
     foldl (\<lambda>d now. snd (saveToPGlite d tableName key val now)) db nows"

definition restamp :: "string \<Rightarrow> string \<Rightarrow> kv_row list \<Rightarrow> kv_row list" where
  "restamp k now rs = map (\<lambda>r. if row_key r = k then r\<lparr>row_updated_at := now\<rparr> else r) rs"

text \<open>A store with one settings row, for the worked examples.\<close>

definition settings_fixture :: store where
  "settings_fixture =
     \<lparr>patients = [], form_persistence = [],
      sql_settings = [\<lparr>row_key = ''last_query'', row_value = ''SELECT 1'', row_updated_at = ''t0''\<rparr>],
      refusal = pg_refusal\<rparr>"

section \<open>The tab: store handle, change bus, notices, local storage\<close>

record message =
  msg_type :: string
  msg_data :: "jsvalue option"
  msg_timestamp :: nat

record toast =
  destructive :: bool
  title :: string
  description :: string

text \<open>
  What the views of one tab share: the handle and the \<open>loading\<close> flag of \<^verbatim>\<open>useDb\<close>, the
  broadcast channel with the messages posted so far (\<open>None\<close> when
  \<^verbatim>\<open>getBroadcastChannel\<close> yields \<^verbatim>\<open>null\<close>), the notices shown, and the browser's local storage.
\<close>

record tab =
  db :: "store option"
  loading :: bool
  channel :: "message list option"
  toasts :: "toast list"
  localStorage :: "string \<Rightarrow> string option"

text \<open>db.ts, \<^verbatim>\<open>broadcastChange(type, data)\<close>; \<open>ts\<close> is \<^verbatim>\<open>Date.now()\<close>.\<close>

definition broadcastChange :: "string \<Rightarrow> jsvalue option \<Rightarrow> nat \<Rightarrow> tab \<Rightarrow> tab" where
  "broadcastChange ty data ts t =
     (case channel t of
        None \<Rightarrow> t
      | Some posted \<Rightarrow>
          t\<lparr>channel := Some (posted @ [\<lparr>msg_type = ty, msg_data = data, msg_timestamp = ts\<rparr>])\<rparr>)"

definition notify :: "toast \<Rightarrow> tab \<Rightarrow> tab" where
  "notify n t = t\<lparr>toasts := toasts t @ [n]\<rparr>"

fun error_message :: "error \<Rightarrow> string" where
  "error_message (TypeError m) = m"
| "error_message (DbError m) = m"
| "error_message (SyntaxError m) = m"

section \<open>Patient registration (PatientForm.tsx, db.ts)\<close>

text \<open>
  \<^verbatim>\<open>PatientFormValues\<close>, the type inferred from \<^verbatim>\<open>patientFormSchema\<close>: the fields declared
  \<^verbatim>\<open>.optional()\<close> may be absent.
\<close>

record PatientFormValues =
  v_firstName :: string
  v_lastName :: string
  v_dateOfBirth :: string
  v_gender :: string
  v_email :: "string option"
  v_phone :: string
  v_address :: string
  v_insuranceProvider :: "string option"
  v_insuranceNumber :: "string option"
  v_medicalConditions :: string
  v_medications :: string
  v_allergies :: "string option"


definition defaultValues :: PatientFormValues where
  "defaultValues =
     \<lparr>v_firstName = '''', v_lastName = '''', v_dateOfBirth = '''', v_gender = '''',
      v_email = Some '''', v_phone = '''', v_address = '''', v_insuranceProvider = Some '''',
      v_insuranceNumber = Some '''', v_medicalConditions = '''', v_medications = '''',
      v_allergies = Some ''''\<rparr>"

text \<open>The \<^verbatim>\<open>Patient\<close> interface of db.ts.\<close>

record Patient =
  id' :: string
  firstName :: string
  lastName :: string
  dateOfBirth :: string
  gender :: string
  email :: string
  phone :: string
  address :: string
  insuranceProvider :: string
  insuranceNumber :: string
  medicalConditions :: string
  medications :: string
  allergies :: string
  createdAt :: string
  updatedAt :: string




record form_view =
  current :: PatientFormValues
  isSubmitting :: bool

definition STORAGE_KEY :: string where
  "STORAGE_KEY = ''patient_form_data''"

text \<open>The values a form field change hands to \<open>saveFormData\<close>, as a JavaScript object.\<close>

definition optional_member :: "string \<Rightarrow> string option \<Rightarrow> (string \<times> jsvalue) list" where
  "optional_member k x = (case x of None \<Rightarrow> [] | Some s \<Rightarrow> [(k, Prim (PStr s))])"

definition values_object :: "PatientFormValues \<Rightarrow> jsvalue" where
  "values_object v = JObj
     ([(''firstName'', Prim (PStr (v_firstName v))), (''lastName'', Prim (PStr (v_lastName v))),
       (''dateOfBirth'', Prim (PStr (v_dateOfBirth v))), (''gender'', Prim (PStr (v_gender v)))]
      @ optional_member ''email'' (v_email v)
      @ [(''phone'', Prim (PStr (v_phone v))), (''address'', Prim (PStr (v_address v)))]
      @ optional_member ''insuranceProvider'' (v_insuranceProvider v)
      @ optional_member ''insuranceNumber'' (v_insuranceNumber v)
      @ [(''medicalConditions'', Prim (PStr (v_medicalConditions v))),
         (''medications'', Prim (PStr (v_medications v)))]
      @ optional_member ''allergies'' (v_allergies v))"

text \<open>
  \<open>saveFormData\<close> of PatientForm.tsx, lines 86 to 92, and the subscription of lines 95 to 98,
  \<^verbatim>\<open>form.watch((value) => saveFormData(value))\<close>: every change of a field calls it with the
  new values. A failure of the write is logged and dropped.
\<close>

definition saveFormData :: "PatientFormValues \<Rightarrow> tab \<Rightarrow> tab" where
  "saveFormData vals t =
     (case JSON_stringify (values_object vals) of
        None \<Rightarrow> t
      | Some text \<Rightarrow> t\<lparr>localStorage := (localStorage t)(STORAGE_KEY \<mapsto> text)\<rparr>)"



definition form_change :: "PatientFormValues \<Rightarrow> tab \<times> form_view \<Rightarrow> tab \<times> form_view" where
  "form_change vals tf = (saveFormData vals (fst tf), (snd tf)\<lparr>current := vals\<rparr>)"

text \<open>
  The row the specification expects for submitted values: each column holds the field of
  the same name, an absent optional field is stored as the empty text, and both time
  stamps are the time of submission.
\<close>

definition stored_row :: "string \<Rightarrow> string \<Rightarrow> PatientFormValues \<Rightarrow> patients_row" where
  "stored_row uuid now v =
     \<lparr>p_id = uuid, p_first_name = v_firstName v, p_last_name = v_lastName v,
      p_date_of_birth = v_dateOfBirth v, p_gender = v_gender v,
      p_email = (case v_email v of None \<Rightarrow> Some '''' | Some x \<Rightarrow> Some x),
      p_phone = Some (v_phone v),
      p_address = Some (v_address v),
      p_insurance_provider =
        (case v_insuranceProvider v of None \<Rightarrow> Some '''' | Some x \<Rightarrow> Some x),
      p_insurance_number =
        (case v_insuranceNumber v of None \<Rightarrow> Some '''' | Some x \<Rightarrow> Some x),
      p_medical_conditions = Some (v_medicalConditions v),
      p_medications = Some (v_medications v),
      p_allergies = (case v_allergies v of None \<Rightarrow> Some '''' | Some x \<Rightarrow> Some x),
      p_created_at = now, p_updated_at = now\<rparr>"


text \<open>Values and a tab for the worked examples.\<close>

definition jane :: PatientFormValues where
  "jane =
     \<lparr>v_firstName = ''Jane'', v_lastName = ''Doe'', v_dateOfBirth = ''2000-06-15'',
      v_gender = ''female'', v_email = Some '''', v_phone = ''5551234567'',
      v_address = ''1 Main St'', v_insuranceProvider = None, v_insuranceNumber = Some ''A1'',
      v_medicalConditions = ''none'', v_medications = ''none'', v_allergies = None\<rparr>"

definition ready_tab :: tab where
  "ready_tab =
     \<lparr>db = Some settings_fixture, loading = False, channel = Some [], toasts = [],
      localStorage = Map.empty\<rparr>"

text \<open>A form whose first-name field has received one keystroke, and an untouched form.\<close>

definition typed_J :: PatientFormValues where
  "typed_J = defaultValues\<lparr>v_firstName := ''J''\<rparr>"

definition blank_form :: form_view where
  "blank_form = \<lparr>current = defaultValues, isSubmitting = False\<rparr>"

section \<open>The SQL console: state and result post-processing (SqlConsole)\<close>

record console =
  sql :: string
  results :: "row list"
  isExecuting :: bool
  resultColumns :: "string list"
  formattedHeaders :: "(string \<times> string) list"
  executionTime :: nat
  sqlHistory :: "string list"
  activeTab :: string

text \<open>
  What \<^verbatim>\<open>db.query(sql)\<close> does with the user's text: it throws, or returns rows, or returns
  an object without \<^verbatim>\<open>rows\<close> that may carry a \<^verbatim>\<open>rowCount\<close>.
\<close>

datatype query_result = QueryThrows error | QueryRows "row list" | QueryNoRows "nat option"

text \<open>
  What one run reads from outside the application: the engine on the user's text (its
  answer and the store it leaves), the time zone as the minutes local time is ahead of
  UTC, the runtime's \<^verbatim>\<open>new Date(x)\<close> on a value that is not a date-only text (\<open>None\<close>: an
  invalid date), the current date, the measured duration in whole milliseconds, the clock as
  \<^verbatim>\<open>toISOString()\<close> and as \<^verbatim>\<open>Date.now()\<close>, and \<^verbatim>\<open>JSON.parse\<close> at the type of each state
  variable it fills (\<open>None\<close>: it throws a \<^verbatim>\<open>SyntaxError\<close>). Texts that parse to a value of
  another shape than the state variable's declared type are not considered.
\<close>

record runtime =
  rt_engine :: "string \<Rightarrow> store \<Rightarrow> query_result \<times> store"
  rt_zone :: int
  rt_parseDate :: "jsvalue \<Rightarrow> jsdate option"
  rt_today :: jsdate
  rt_elapsed :: nat
  rt_isoNow :: string
  rt_dateNow :: nat
  rt_parse_rows :: "string \<Rightarrow> row list option"
  rt_parse_strings :: "string \<Rightarrow> string list option"
  rt_parse_headers :: "string \<Rightarrow> (string \<times> string) list option"

text \<open>
  \<^verbatim>\<open>!sql.trim()\<close>: the text consists of white space and line terminators only. A text is
  held as the bytes of its UTF-8 form; the characters \<^verbatim>\<open>trim\<close> strips are the six of ASCII
  and U+00A0, U+1680, U+2000 to U+200A, U+2028, U+2029, U+202F, U+205F, U+3000 and U+FEFF.
\<close>

fun is_blank :: "string \<Rightarrow> bool" where
  "is_blank [] = True"
| "is_blank (c # cs) =
     (if c \<in> set [CHR 0x09, CHR 0x0A, CHR 0x0B, CHR 0x0C, CHR 0x0D, CHR '' ''] then is_blank cs
      else if c = CHR 0xC2
        then (case cs of c2 # r \<Rightarrow> c2 = CHR 0xA0 \<and> is_blank r | [] \<Rightarrow> False)
      else if c = CHR 0xE1
        then (case cs of
                c2 # c3 # r \<Rightarrow> c2 = CHR 0x9A \<and> c3 = CHR 0x80 \<and> is_blank r
              | _ \<Rightarrow> False)
      else if c = CHR 0xE2
        then (case cs of
                c2 # c3 # r \<Rightarrow>
                  ((c2 = CHR 0x80 \<and>
                      c3 \<in> set [CHR 0x80, CHR 0x81, CHR 0x82, CHR 0x83, CHR 0x84, CHR 0x85,
                                CHR 0x86, CHR 0x87, CHR 0x88, CHR 0x89, CHR 0x8A, CHR 0xA8,
                                CHR 0xA9, CHR 0xAF])
                   \<or> (c2 = CHR 0x81 \<and> c3 = CHR 0x9F)) \<and> is_blank r
              | _ \<Rightarrow> False)
      else if c = CHR 0xE3
        then (case cs of
                c2 # c3 # r \<Rightarrow> c2 = CHR 0x80 \<and> c3 = CHR 0x80 \<and> is_blank r
              | _ \<Rightarrow> False)
      else if c = CHR 0xEF
        then (case cs of
                c2 # c3 # r \<Rightarrow> c2 = CHR 0xBB \<and> c3 = CHR 0xBF \<and> is_blank r
              | _ \<Rightarrow> False)
      else False)"

definition Object_keys :: "(string \<times> 'v) list \<Rightarrow> string list" where
  "Object_keys r = map fst r"

fun obj_set :: "string \<Rightarrow> 'v \<Rightarrow> (string \<times> 'v) list \<Rightarrow> (string \<times> 'v) list" where
  \<comment> \<open>\<^verbatim>\<open>o[k] = v\<close>: an existing key keeps its place, a new key goes to the end\<close>
  "obj_set k v [] = [(k, v)]"
| "obj_set k v (m # ms) = (if fst m = k then (k, v) # ms else m # obj_set k v ms)"

fun truthy :: "jsvalue \<Rightarrow> bool" where
  "truthy (Prim (PBool b)) = b"
| "truthy (Prim (PNum n)) = (n \<noteq> 0)"
| "truthy (Prim PNaN) = False"
| "truthy (Prim (PBigInt n)) = (n \<noteq> 0)"
| "truthy (Prim (PStr s)) = (s \<noteq> [])"
| "truthy JNull = False"
| "truthy (JArr vs) = True"
| "truthy (JObj ms) = True"

definition age_value :: "runtime \<Rightarrow> jsvalue \<Rightarrow> jsvalue" where
  "age_value rt d =
     (case calculateAge (rt_zone rt) (rt_parseDate rt) (rt_today rt) d of
        None \<Rightarrow> Prim PNaN
      | Some age \<Rightarrow> Prim (PNum age))"

definition processRow :: "runtime \<Rightarrow> row \<Rightarrow> row" where
  "processRow rt r =
     (case map_of r ''date_of_birth'' of
        None \<Rightarrow> r
      | Some d \<Rightarrow> if truthy d then obj_set ''age'' (age_value rt d) r else r)"

fun split_on :: "char \<Rightarrow> string \<Rightarrow> string list" where
  "split_on d [] = [ [] ]"
| "split_on d (c # cs) =
     (if c = d then [] # split_on d cs
      else (case split_on d cs of [] \<Rightarrow> [ [c] ] | w # ws \<Rightarrow> (c # w) # ws))"

definition toUpperCase_char :: "char \<Rightarrow> char" where
  "toUpperCase_char c =
     (case map_of (zip ''abcdefghijklmnopqrstuvwxyz'' ''ABCDEFGHIJKLMNOPQRSTUVWXYZ'') c of
        None \<Rightarrow> c | Some u \<Rightarrow> u)"

definition toLowerCase_char :: "char \<Rightarrow> char" where
  "toLowerCase_char c =
     (case map_of (zip ''ABCDEFGHIJKLMNOPQRSTUVWXYZ'' ''abcdefghijklmnopqrstuvwxyz'') c of
        None \<Rightarrow> c | Some l \<Rightarrow> l)"

definition capitalize :: "string \<Rightarrow> string" where
  \<comment> \<open>\<^verbatim>\<open>word.charAt(0).toUpperCase() + word.slice(1).toLowerCase()\<close>, on ASCII letters\<close>
  "capitalize word =
     (case word of [] \<Rightarrow> [] | c # cs \<Rightarrow> toUpperCase_char c # map toLowerCase_char cs)"

definition formatColumnHeader :: "string \<Rightarrow> string" where
  "formatColumnHeader header = join '' '' (map capitalize (split_on CHR ''_'' header))"

definition format_headers :: "string list \<Rightarrow> (string \<times> string) list" where
  "format_headers columns =
     (let headers = foldl (\<lambda>h col. obj_set col (formatColumnHeader col) h) [] columns
      in if ''date_of_birth'' \<in> set columns then obj_set ''age'' ''Age'' headers else headers)"

fun indexOf :: "'a \<Rightarrow> 'a list \<Rightarrow> int" where
  "indexOf x [] = - 1"
| "indexOf x (y # ys) =
     (if y = x then 0 else (let i = indexOf x ys in if i = - 1 then - 1 else i + 1))"

definition splice_insert :: "int \<Rightarrow> 'a \<Rightarrow> 'a list \<Rightarrow> 'a list" where
  \<comment> \<open>\<^verbatim>\<open>xs.splice(start, 0, x)\<close> for a start that is not negative\<close>
  "splice_insert start x xs = take (nat start) xs @ [x] @ drop (nat start) xs"

definition reorderColumns :: "string list \<Rightarrow> string list" where
  "reorderColumns columns =
     (if ''date_of_birth'' \<in> set columns \<and> ''gender'' \<in> set columns
      then
        let reorderedColumns = filter (\<lambda>col. col \<noteq> ''age'') columns;
            genderIndex = indexOf ''gender'' reorderedColumns
        in if genderIndex \<noteq> - 1
           then splice_insert (genderIndex + 1) ''age'' reorderedColumns
           else reorderedColumns
      else if ''date_of_birth'' \<in> set columns then columns @ [''age'']
      else columns)"

section \<open>The SQL console: running a query (part_001, executeQuery)\<close>

definition save_setting :: "string \<Rightarrow> jsvalue \<Rightarrow> string \<Rightarrow> tab \<Rightarrow> unit result \<times> tab" where
  \<comment> \<open>\<^verbatim>\<open>await saveToPGlite(db, "sql_settings", key, value)\<close>\<close>
  "save_setting key val now t =
     (case saveToPGlite (db t) ''sql_settings'' key val now of (r, d) \<Rightarrow> (r, t\<lparr>db := d\<rparr>))"

fun save_settings :: "(string \<times> jsvalue) list \<Rightarrow> string \<Rightarrow> tab \<Rightarrow> unit result \<times> tab" where
  \<comment> \<open>awaited calls one after the other: the first rejection ends the sequence\<close>
  "save_settings [] now t = (Inr (), t)"
| "save_settings (kv # kvs) now t =
     (case save_setting (fst kv) (snd kv) now t of
        (Inl err, t') \<Rightarrow> (Inl err, t')
      | (Inr u, t') \<Rightarrow> save_settings kvs now t')"

definition rows_value :: "row list \<Rightarrow> jsvalue" where
  "rows_value rows = JArr (map JObj rows)"

definition strings_value :: "string list \<Rightarrow> jsvalue" where
  "strings_value xs = JArr (map (\<lambda>x. Prim (PStr x)) xs)"

definition headers_value :: "(string \<times> string) list \<Rightarrow> jsvalue" where
  "headers_value hs = JObj (map (\<lambda>m. (fst m, Prim (PStr (snd m)))) hs)"

definition clear_saved_results :: "tab \<Rightarrow> tab" where
  \<comment> \<open>\<^verbatim>\<open>DELETE FROM sql_settings WHERE key IN ($1, $2, $3)\<close>\<close>
  "clear_saved_results t =
     (case db t of
        None \<Rightarrow> t
      | Some s \<Rightarrow>
          t\<lparr>db := Some (s\<lparr>sql_settings :=
                delete_keys [''last_results'', ''last_columns'', ''last_headers''] (sql_settings s)\<rparr>)\<rparr>)"

text \<open>The three branches on the answer of the engine, lines 179 to 254.\<close>

definition show_result :: "runtime \<Rightarrow> query_result \<Rightarrow> tab \<times> console \<Rightarrow> unit result \<times> (tab \<times> console)" where
  "show_result rt outcome tc =
     (case tc of (t, c) \<Rightarrow>
       (case outcome of
          QueryThrows err \<Rightarrow> (Inl err, (t, c))
        | QueryRows [] \<Rightarrow>
            (Inr (), (clear_saved_results t,
                      c\<lparr>executionTime := rt_elapsed rt, resultColumns := [],
                        formattedHeaders := [], results := []\<rparr>))
        | QueryRows (first # rest) \<Rightarrow>
            let columns = Object_keys first;
                processedResults = map (processRow rt) (first # rest);
                headers = format_headers columns;
                reorderedColumns = reorderColumns columns;
                c' = c\<lparr>executionTime := rt_elapsed rt, formattedHeaders := headers,
                       results := processedResults, resultColumns := reorderedColumns\<rparr>
            in (case save_settings
                       [(''last_results'', rows_value processedResults),
                        (''last_columns'', strings_value reorderedColumns),
                        (''last_headers'', headers_value headers)] (rt_isoNow rt) t of
                  (r, t') \<Rightarrow> (r, (t', c')))
        | QueryNoRows rowCount \<Rightarrow>
            let headers = [(''rowCount'', ''Row Count'')];
                queryResults =
                  [ [(''rowCount'',
                     (case rowCount of
                        None \<Rightarrow> Prim (PStr ''Success'')
                      | Some n \<Rightarrow> if n = 0 then Prim (PStr ''Success'') else Prim (PNum (int n))))] ];
                c' = c\<lparr>executionTime := rt_elapsed rt, resultColumns := [''rowCount''],
                       formattedHeaders := headers, results := queryResults\<rparr>
            in (case save_settings
                       [(''last_results'', rows_value queryResults),
                        (''last_columns'', strings_value [''rowCount'']),
                        (''last_headers'', headers_value headers)] (rt_isoNow rt) t of
                  (r, t') \<Rightarrow> (r, (t', c')))))"

text \<open>
  Lines 256 to 276: the history (the write of a new history is not awaited and its failure
  is only logged), the tab, the broadcast and the notice.
\<close>

definition record_run :: "runtime \<Rightarrow> tab \<times> console \<Rightarrow> tab \<times> console" where
  "record_run rt tc =
     (case tc of (t, c) \<Rightarrow>
        let newHistory = updateHistory (sqlHistory c) (sql c);
            t1 = (if \<not> List.member (sqlHistory c) (sql c)
                  then t\<lparr>db := snd (saveToPGlite (db t) ''sql_settings'' ''sql_history''
                                       (strings_value newHistory) (rt_isoNow rt))\<rparr>
                  else t);
            t2 = broadcastChange ''results-updated'' None (rt_dateNow rt) t1;
            t3 = notify \<lparr>destructive = False, title = ''Query executed successfully'',
                   description = ''Completed in '' @ nat_to_string (rt_elapsed rt) @ ''.00ms''\<rparr> t2
        in (t3, c\<lparr>sqlHistory := newHistory, activeTab := ''results''\<rparr>))"

definition executeQuery :: "runtime \<Rightarrow> tab \<times> console \<Rightarrow> tab \<times> console" where
  "executeQuery rt tc =
     (case tc of (t, c) \<Rightarrow>
       (case db t of
          None \<Rightarrow> (t, c)
        | Some s \<Rightarrow>
            if loading t \<or> is_blank (sql c) then (t, c)
            else
              (case rt_engine rt (sql c) s of (outcome, s') \<Rightarrow>
                (case show_result rt outcome (t\<lparr>db := Some s'\<rparr>, c\<lparr>isExecuting := True\<rparr>) of
                   (Inl err, (t1, c1)) \<Rightarrow>
                     (notify \<lparr>destructive = True, title = ''Query failed'',
                        description = error_message err\<rparr> t1,
                      c1\<lparr>isExecuting := False\<rparr>)
                 | (Inr u, tc1) \<Rightarrow>
                     (case record_run rt tc1 of (t2, c2) \<Rightarrow> (t2, c2\<lparr>isExecuting := False\<rparr>))))))"

section \<open>The SQL console: hydration on mount (loadSavedData)\<close>

text \<open>
  Lines 97 to 103 of part_001, the block that fills the three result variables: the
  setters run in the order results, columns, headers, and the \<^verbatim>\<open>catch\<close> around them ends the
  block at the first text that \<^verbatim>\<open>JSON.parse\<close> rejects.
\<close>

definition hydrate_results :: "runtime \<Rightarrow> string \<Rightarrow> string \<Rightarrow> string \<Rightarrow> console \<Rightarrow> console" where
  "hydrate_results rt resultsText columnsText headersText c =
     (case rt_parse_rows rt resultsText of
        None \<Rightarrow> c
      | Some rows \<Rightarrow>
          let c1 = c\<lparr>results := rows\<rparr> in
          (case rt_parse_strings rt columnsText of
             None \<Rightarrow> c1
           | Some cols \<Rightarrow>
               let c2 = c1\<lparr>resultColumns := cols\<rparr> in
               (case rt_parse_headers rt headersText of
                  None \<Rightarrow> c2
                | Some hs \<Rightarrow> c2\<lparr>formattedHeaders := hs\<rparr>)))"

text \<open>\<open>loadSavedData\<close> of part_001, lines 61 to 116, and the guard of lines 118 to 120.\<close>

definition loadSavedData :: "runtime \<Rightarrow> tab \<times> console \<Rightarrow> tab \<times> console" where
  "loadSavedData rt tc =
     (case tc of (t, c) \<Rightarrow>
       (case db t of
          None \<Rightarrow> (t, c)
        | Some s \<Rightarrow>
            let queryResult = select_value ''last_query'' (sql_settings s);
                c1 = (case queryResult of
                        v # others \<Rightarrow> c\<lparr>sql := v\<rparr>
                      | [] \<Rightarrow> c\<lparr>sql := ''SELECT * FROM patients;''\<rparr>);
                resultsQuery = select_value ''last_results'' (sql_settings s);
                columnsQuery = select_value ''last_columns'' (sql_settings s);
                headersQuery = select_value ''last_headers'' (sql_settings s);
                historyQuery = select_value ''sql_history'' (sql_settings s);
                c2 = (if resultsQuery \<noteq> [] \<and> columnsQuery \<noteq> [] \<and> headersQuery \<noteq> []
                      then hydrate_results rt (hd resultsQuery) (hd columnsQuery) (hd headersQuery) c1
                      else c1);
                c3 = (if historyQuery \<noteq> []
                      then (case rt_parse_strings rt (hd historyQuery) of
                              None \<Rightarrow> c2
                            | Some history \<Rightarrow> c2\<lparr>sqlHistory := history\<rparr>)
                      else c2)
            in (t, c3)))"

definition on_mount :: "runtime \<Rightarrow> tab \<times> console \<Rightarrow> tab \<times> console" where
  "on_mount rt tc = (if db (fst tc) \<noteq> None \<and> \<not> loading (fst tc) then loadSavedData rt tc else tc)"

text \<open>
  The text a hydration query finds for a key, \<^verbatim>\<open>rows[0].value\<close>, if there is a row.
\<close>

definition saved_text :: "string \<Rightarrow> store \<Rightarrow> string option" where
  "saved_text k s = (case select_value k (sql_settings s) of [] \<Rightarrow> None | v # others \<Rightarrow> Some v)"

text \<open>
  \<open>loadSavedData\<close> of SqlConsole.tsx, lines 49 to 88: the history is parsed first, and one
  \<^verbatim>\<open>try\<close> block holds the whole hydration, so the first rejected text ends it. The
  \<^verbatim>\<open>CREATE TABLE IF NOT EXISTS\<close> of lines 59 to 64 finds the table in place.
\<close>

definition loadSavedData_SqlConsole_tsx :: "runtime \<Rightarrow> tab \<times> console \<Rightarrow> tab \<times> console" where
  "loadSavedData_SqlConsole_tsx rt tc =
     (case tc of (t, c) \<Rightarrow>
       (case db t of
          None \<Rightarrow> (t, c)
        | Some s \<Rightarrow>
            let historyQuery = select_value ''sql_history'' (sql_settings s);
                parsed = (if historyQuery \<noteq> []
                          then (case rt_parse_strings rt (hd historyQuery) of
                                  None \<Rightarrow> None
                                | Some history \<Rightarrow> Some (c\<lparr>sqlHistory := history\<rparr>))
                          else Some c)
            in (case parsed of
                  None \<Rightarrow> (t, c)
                | Some c0 \<Rightarrow>
                    let queryResult = select_value ''last_query'' (sql_settings s);
                        c1 = (case queryResult of
                                v # others \<Rightarrow> c0\<lparr>sql := v\<rparr>
                              | [] \<Rightarrow> c0\<lparr>sql := ''SELECT * FROM patients;''\<rparr>);
                        resultsQuery = select_value ''last_results'' (sql_settings s);
                        columnsQuery = select_value ''last_columns'' (sql_settings s);
                        headersQuery = select_value ''last_headers'' (sql_settings s)
                    in (t, if resultsQuery \<noteq> [] \<and> columnsQuery \<noteq> [] \<and> headersQuery \<noteq> []
                           then hydrate_results rt (hd resultsQuery) (hd columnsQuery)
                                  (hd headersQuery) c1
                           else c1))))"

section \<open>An engine fragment and a runtime for the worked examples\<close>

text \<open>
  A patients row as the JavaScript object the engine returns for it, and the engine on
  three kinds of text: \<^verbatim>\<open>SELECT * FROM patients;\<close> returns every row and leaves the store
  alone, \<^verbatim>\<open>DELETE FROM patients\<close> removes every row of the table and returns no rows, and any
  other text is answered as the engine answers a malformed statement. The examples use
  the first two texts and malformed ones only. The example runtime runs five hours
  behind UTC and meets no date that is not a date-only text. Its parsers know
  the JSON texts the examples store and reject every other text; the examples use those
  texts and malformed ones only.
\<close>

definition patient_as_row :: "patients_row \<Rightarrow> row" where
  "patient_as_row p =
     (let opt = (\<lambda>x. case x of None \<Rightarrow> JNull | Some v \<Rightarrow> Prim (PStr v)) in
      [(''id'', Prim (PStr (p_id p))), (''first_name'', Prim (PStr (p_first_name p))),
       (''last_name'', Prim (PStr (p_last_name p))),
       (''date_of_birth'', Prim (PStr (p_date_of_birth p))),
       (''gender'', Prim (PStr (p_gender p))), (''email'', opt (p_email p)),
       (''phone'', opt (p_phone p)), (''address'', opt (p_address p)),
       (''insurance_provider'', opt (p_insurance_provider p)),
       (''insurance_number'', opt (p_insurance_number p)),
       (''medical_conditions'', opt (p_medical_conditions p)),
       (''medications'', opt (p_medications p)), (''allergies'', opt (p_allergies p)),
       (''created_at'', Prim (PStr (p_created_at p))),
       (''updated_at'', Prim (PStr (p_updated_at p)))])"

definition example_engine :: "string \<Rightarrow> store \<Rightarrow> query_result \<times> store" where
  "example_engine q s =
     (if q = ''SELECT * FROM patients;'' then (QueryRows (map patient_as_row (patients s)), s)
      else if q = ''DELETE FROM patients'' then (QueryRows [], s\<lparr>patients := []\<rparr>)
      else (QueryThrows (DbError ''syntax error''), s))"

definition columns_text :: string where
  \<comment> \<open>the JSON text of the array with the one string \<^verbatim>\<open>id\<close>\<close>
  "columns_text = [CHR ''['', CHR 0x22, CHR ''i'', CHR ''d'', CHR 0x22, CHR '']'']"

definition headers_text :: string where
  \<comment> \<open>the JSON text of the object that maps \<^verbatim>\<open>id\<close> to \<^verbatim>\<open>Id\<close>\<close>
  "headers_text =
     [CHR ''{'', CHR 0x22, CHR ''i'', CHR ''d'', CHR 0x22, CHR '':'',
      CHR 0x22, CHR ''I'', CHR ''d'', CHR 0x22, CHR ''}'']"

definition example_runtime :: runtime where
  "example_runtime =
     \<lparr>rt_engine = example_engine, rt_zone = - 300, rt_parseDate = (\<lambda>v. None),
      rt_today = ymd 2024 6 14, rt_elapsed = 3, rt_isoNow = ''2024-06-14T10:00:00.000Z'',
      rt_dateNow = 1718359200000,
      rt_parse_rows = (\<lambda>text. if text = ''[{}]'' then Some [ [] ] else None),
      rt_parse_strings =
        (\<lambda>text. if text = columns_text then Some [''id'']
               else if text = ''[]'' then Some [] else None),
      rt_parse_headers =
        (\<lambda>text. if text = headers_text then Some [(''id'', ''Id'')]
               else if text = ''{}'' then Some [] else None)\<rparr>"

definition registered_tab :: tab where
  "registered_tab =
     \<lparr>db = Some (settings_fixture\<lparr>patients := [stored_row ''id-1'' ''2024-06-14T10:00:00.000Z'' jane]\<rparr>),
      loading = False, channel = Some [], toasts = [], localStorage = Map.empty\<rparr>"

definition fresh_console :: console where
  "fresh_console =
     \<lparr>sql = ''SELECT * FROM patients;'', results = [], isExecuting = False, resultColumns = [],
      formattedHeaders = [], executionTime = 0, sqlHistory = [], activeTab = ''results''\<rparr>"

text \<open>
  The console as \<^verbatim>\<open>useState\<close> creates it, and a store holding one saved entry per
  settings key.
\<close>

definition initial_console :: console where
  "initial_console =
     \<lparr>sql = '''', results = [], isExecuting = False, resultColumns = [],
      formattedHeaders = [], executionTime = 0, sqlHistory = [], activeTab = ''results''\<rparr>"

definition setting :: "string \<Rightarrow> string \<Rightarrow> kv_row" where
  "setting k v = \<lparr>row_key = k, row_value = v, row_updated_at = ''2024-06-14T10:00:00.000Z''\<rparr>"

definition saved_store :: "string \<Rightarrow> string \<Rightarrow> store" where
  "saved_store resultsText historyText =
     \<lparr>patients = [], form_persistence = [],
      sql_settings =
        [setting ''last_query'' ''SELECT 1'',
         setting ''last_results'' resultsText,
         setting ''last_columns'' columns_text,
         setting ''last_headers'' headers_text,
         setting ''sql_history'' historyText],
      refusal = pg_refusal\<rparr>"

definition saved_tab :: "string \<Rightarrow> string \<Rightarrow> tab" where
  "saved_tab resultsText historyText =
     \<lparr>db = Some (saved_store resultsText historyText), loading = False, channel = Some [],
      toasts = [], localStorage = Map.empty\<rparr>"

section \<open>Autosave of the console text (part_001, lines 123 to 133)\<close>

text \<open>
  The effect depends on \<open>sql\<close> and \<open>db\<close>. After a render in which the text changed, the
  cleanup of the previous run of the effect clears its timer, and the effect runs again:
  when the text is not empty and the store is open it sets a timer of 500 ms, whose
  callback saves the text the timer was created with. Setting the text to the value it
  has causes no render. The record holds what the effect reads and writes: the handle,
  the text, the time in milliseconds, the pending timer with its due time and its text,
  and the texts handed to \<open>saveToPGlite\<close> so far.
\<close>

record editor =
  ed_db :: "store option"
  ed_sql :: string
  ed_clock :: nat
  ed_timer :: "(nat \<times> string) option"
  ed_saved :: "string list"

definition setSql :: "string \<Rightarrow> editor \<Rightarrow> editor" where
  "setSql v e =
     (if v = ed_sql e then e
      else e\<lparr>ed_sql := v,
             ed_timer := (if v \<noteq> [] \<and> ed_db e \<noteq> None then Some (ed_clock e + 500, v) else None)\<rparr>)"

text \<open>
  Time passes without an edit: a timer that falls due fires. \<open>stamp\<close> renders a time as
  \<^verbatim>\<open>toISOString()\<close> does; a rejected save is logged and dropped.
\<close>

definition elapse :: "(nat \<Rightarrow> string) \<Rightarrow> nat \<Rightarrow> editor \<Rightarrow> editor" where
  "elapse stamp n e =
     (case ed_timer e of
        None \<Rightarrow> e\<lparr>ed_clock := ed_clock e + n\<rparr>
      | Some pending \<Rightarrow>
          if fst pending \<le> ed_clock e + n
          then e\<lparr>ed_clock := ed_clock e + n, ed_timer := None,
                 ed_db := snd (saveToPGlite (ed_db e) ''sql_settings'' ''last_query''
                                 (Prim (PStr (snd pending))) (stamp (fst pending))),
                 ed_saved := ed_saved e @ [snd pending]\<rparr>
          else e\<lparr>ed_clock := ed_clock e + n\<rparr>)"

text \<open>A run of edits, each given with the time that passed since the one before.\<close>

fun typing :: "(nat \<Rightarrow> string) \<Rightarrow> (nat \<times> string) list \<Rightarrow> editor \<Rightarrow> editor" where
  "typing stamp [] e = e"
| "typing stamp (k # ks) e = typing stamp ks (setSql (snd k) (elapse stamp (fst k) e))"

fun each_changes :: "string \<Rightarrow> string list \<Rightarrow> bool" where
  "each_changes cur [] = True"
| "each_changes cur (v # vs) = (v \<noteq> cur \<and> each_changes v vs)"

text \<open>
  The timer is the one the effect sets for the current text: due 500 ms from now and
  carrying that text, or absent when the text is empty or the store is not open.
\<close>

definition armed :: "editor \<Rightarrow> bool" where
  "armed e =
     (ed_timer e = (if ed_sql e \<noteq> [] \<and> ed_db e \<noteq> None then Some (ed_clock e + 500, ed_sql e) else None))"

definition idle_editor :: editor where
  "idle_editor =
     \<lparr>ed_db = Some settings_fixture, ed_sql = ''SELECT 1'', ed_clock = 1000, ed_timer = None,
      ed_saved = []\<rparr>"

section \<open>The other operations on the store, and runs of operations\<close>







text \<open>The store of a tab is open and its patients table is the given list of rows.\<close>

definition holds_patients :: "patients_row list \<Rightarrow> tab \<Rightarrow> bool" where
  "holds_patients ps t = (map_option patients (db t) = Some ps)"



section \<open>Properties of the derived age\<close>

lemma date_only_2000_06_15: "date_only ''2000-06-15'' = Some (2000, 6, 15)"
  by (simp add: date_only_def digit_value_def days_in_month_def)

lemma new_Date_date_only:
  "date_only text = Some day \<Longrightarrow> new_Date zone other (Prim (PStr text)) = Some (local_day zone day)"
  by (simp add: new_Date_def)

text \<open>
  On the calendar day that the getters read off the parsed birth date, the result is the
  difference of the years less one in the stated case, the number of whole years. For a
  browser at UTC or ahead of it that day is the day of the stored text.
\<close>

lemma calculateAge_whole_years:
  assumes "new_Date zone other v = Some dob"
  shows "\<exists>a. calculateAge zone other today v = Some a
     \<and> a = getFullYear today - getFullYear dob -
           (if getMonth today < getMonth dob \<or>
               (getMonth today = getMonth dob \<and> getDate today < getDate dob) then 1 else 0)
     \<and> on_or_before (anniversary a dob) today
     \<and> \<not> on_or_before (anniversary (a + 1) dob) today"
  using assms by (auto simp: calculateAge_def Let_def on_or_before_def anniversary_def)

lemma calculateAge_not_behind_utc:
  assumes "date_only text = Some (y, m, d)" and "0 \<le> zone"
  shows "calculateAge zone other today (Prim (PStr text)) =
     Some (getFullYear today - y -
           (if getMonth today < m - 1 \<or> (getMonth today = m - 1 \<and> getDate today < d)
            then 1 else 0))"
  using assms
  by (auto simp: calculateAge_def new_Date_def local_day_def ymd_def Let_def)

text \<open>
  C2. The claim's own dates, on the code. For the stored birth date \<^verbatim>\<open>2000-06-15\<close> and a
  browser five hours behind UTC, \<open>calculateAge\<close> returns 24 when today is 2024-06-14, where
  the claim says 23, and 23 the day before: the text is read as midnight UTC, which is
  the evening of June 14 in local time, and the getters answer 14 for the day. The
  console shows that age in the row. At UTC the code returns the 23 and 24 of the claim.
\<close>

theorem calculateAge_behind_utc_a_day_early:
  "calculateAge (- 300) (\<lambda>v. None) (ymd 2024 6 14) (Prim (PStr ''2000-06-15'')) = Some 24
   \<and> calculateAge (- 300) (\<lambda>v. None) (ymd 2024 6 13) (Prim (PStr ''2000-06-15'')) = Some 23
   \<and> calculateAge 0 (\<lambda>v. None) (ymd 2024 6 14) (Prim (PStr ''2000-06-15'')) = Some 23
   \<and> calculateAge 0 (\<lambda>v. None) (ymd 2024 6 15) (Prim (PStr ''2000-06-15'')) = Some 24
   \<and> rt_zone example_runtime = - 300 \<and> rt_today example_runtime = ymd 2024 6 14
   \<and> processRow example_runtime [(''date_of_birth'', Prim (PStr ''2000-06-15''))] =
       [(''date_of_birth'', Prim (PStr ''2000-06-15'')), (''age'', Prim (PNum 24))]"
  by (simp add: calculateAge_def new_Date_def date_only_2000_06_15 local_day_def ymd_def
      processRow_def age_value_def example_runtime_def)

section \<open>Properties of the SQL history\<close>

lemma length_slice_last: "length (slice_last n xs) = min n (length xs)"
  by (simp add: slice_last_def)

lemma slice_last_snoc: "0 < n \<Longrightarrow> last (slice_last n (xs @ [x])) = x"
  by (simp add: slice_last_def)

lemma slice_last_slice_last_snoc:
  "slice_last n (slice_last n xs @ [x]) = slice_last n (xs @ [x])"
  by (cases "length xs \<le> n") (auto simp: slice_last_def Suc_diff_le)

lemma member_updateHistory: "List.member (updateHistory prev query) query"
proof (cases "List.member prev query")
  case True
  then show ?thesis by (simp add: updateHistory_def)
next
  case False
  have "slice_last 10 (prev @ [query]) \<noteq> []"
    by (simp add: slice_last_def)
  moreover have "last (slice_last 10 (prev @ [query])) = query"
    by (rule slice_last_snoc) simp
  ultimately have "query \<in> set (slice_last 10 (prev @ [query]))"
    using last_in_set by metis
  with False show ?thesis by (simp add: updateHistory_def)
qed

lemma updateHistory_twice:
  "updateHistory (updateHistory prev query) query = updateHistory prev query"
  using member_updateHistory [of prev query] by (simp add: updateHistory_def [of "updateHistory prev query"])

lemma foldl_updateHistory_distinct:
  "distinct (prev @ qs) \<Longrightarrow> foldl updateHistory (slice_last 10 prev) qs = slice_last 10 (prev @ qs)"
proof (induction qs arbitrary: prev)
  case Nil
  then show ?case by simp
next
  case (Cons q qs)
  have "q \<notin> set prev" using Cons.prems by auto
  then have "q \<notin> set (slice_last 10 prev)"
    by (auto simp: slice_last_def dest: in_set_dropD)
  then have "updateHistory (slice_last 10 prev) q = slice_last 10 (prev @ [q])"
    by (simp add: updateHistory_def slice_last_slice_last_snoc)
  moreover have "distinct ((prev @ [q]) @ qs)" using Cons.prems by simp
  ultimately show ?case using Cons.IH [of "prev @ [q]"] by simp
qed

lemma show_result_keeps_text:
  "sql (snd (snd (show_result rt outcome (t, c)))) = sql c
   \<and> sqlHistory (snd (snd (show_result rt outcome (t, c)))) = sqlHistory c"
proof (cases outcome)
  case (QueryThrows err)
  then show ?thesis by (simp add: show_result_def)
next
  case (QueryRows rows)
  then show ?thesis
    by (cases rows) (simp_all add: show_result_def Let_def case_prod_beta del: save_settings.simps)
next
  case (QueryNoRows rowCount)
  then show ?thesis
    by (simp add: show_result_def Let_def case_prod_beta del: save_settings.simps)
qed

lemma executeQuery_history:
  assumes "db t = Some s" and "\<not> loading t" and "\<not> is_blank (sql c)"
    and "rt_engine rt (sql c) s = (outcome, s')"
    and "fst (show_result rt outcome (t\<lparr>db := Some s'\<rparr>, c\<lparr>isExecuting := True\<rparr>)) = Inr ()"
  shows "sqlHistory (snd (executeQuery rt (t, c))) = updateHistory (sqlHistory c) (sql c)"
proof -
  let ?r = "show_result rt outcome (t\<lparr>db := Some s'\<rparr>, c\<lparr>isExecuting := True\<rparr>)"
  have k: "sql (snd (snd ?r)) = sql c" "sqlHistory (snd (snd ?r)) = sqlHistory c"
    using show_result_keeps_text [of rt outcome "t\<lparr>db := Some s'\<rparr>" "c\<lparr>isExecuting := True\<rparr>"]
    by simp_all
  obtain t1 c1 where r: "?r = (Inr (), (t1, c1))"
    using assms(5) by (metis prod.collapse)
  with k have "sql c1 = sql c" "sqlHistory c1 = sqlHistory c" by simp_all
  with assms(1-4) r show ?thesis
    by (simp add: executeQuery_def record_run_def Let_def)
qed

text \<open>
  C3. For every prior history and every executed query text: a text that is already an
  entry leaves the history as it is; any other text is appended at the end, and entries
  are then dropped from the front so that at most ten, the most recent ones, remain
  (exactly ten once the length exceeds ten). Running the same text twice therefore
  records it once, and running distinct texts from an empty history keeps the last ten
  of them (of eleven, all but the first). A console run whose query and whose saving of
  the result end without an error sets the history to this update of it by the text run.
\<close>

theorem updateHistory_dedup_cap:
  "(query \<in> set prev \<longrightarrow> updateHistory prev query = prev)
   \<and> (query \<notin> set prev \<longrightarrow>
        updateHistory prev query = drop (length prev + 1 - 10) (prev @ [query])
        \<and> last (updateHistory prev query) = query
        \<and> length (updateHistory prev query) = min 10 (length prev + 1))
   \<and> updateHistory (updateHistory prev query) query = updateHistory prev query
   \<and> foldl updateHistory [] [query, query] = [query]
   \<and> (distinct qs \<longrightarrow> foldl updateHistory [] qs = drop (length qs - 10) qs)
   \<and> (distinct qs \<and> length qs = 11 \<longrightarrow> foldl updateHistory [] qs = tl qs)
   \<and> (db t = Some s \<and> \<not> loading t \<and> \<not> is_blank (sql c)
        \<and> rt_engine rt (sql c) s = (outcome, s')
        \<and> fst (show_result rt outcome (t\<lparr>db := Some s'\<rparr>, c\<lparr>isExecuting := True\<rparr>)) = Inr ()
        \<longrightarrow> sqlHistory (snd (executeQuery rt (t, c))) = updateHistory (sqlHistory c) (sql c))"
proof -
  have a: "query \<in> set prev \<longrightarrow> updateHistory prev query = prev"
    by (simp add: updateHistory_def)
  have b: "query \<notin> set prev \<longrightarrow>
        updateHistory prev query = drop (length prev + 1 - 10) (prev @ [query])
        \<and> last (updateHistory prev query) = query
        \<and> length (updateHistory prev query) = min 10 (length prev + 1)"
  proof
    assume "query \<notin> set prev"
    then have u: "updateHistory prev query = slice_last 10 (prev @ [query])"
      by (simp add: updateHistory_def)
    have "slice_last 10 (prev @ [query]) = drop (length prev + 1 - 10) (prev @ [query])"
      by (simp add: slice_last_def)
    moreover have "last (slice_last 10 (prev @ [query])) = query"
      by (rule slice_last_snoc) simp
    moreover have "length (slice_last 10 (prev @ [query])) = min 10 (length prev + 1)"
      by (simp add: length_slice_last)
    ultimately show "updateHistory prev query = drop (length prev + 1 - 10) (prev @ [query])
        \<and> last (updateHistory prev query) = query
        \<and> length (updateHistory prev query) = min 10 (length prev + 1)"
      using u by simp
  qed
  have c: "foldl updateHistory [] [query, query] = [query]"
    by (simp add: updateHistory_def slice_last_def)
  have d: "distinct qs \<longrightarrow> foldl updateHistory [] qs = drop (length qs - 10) qs"
    using foldl_updateHistory_distinct [of "[]" qs] by (simp add: slice_last_def)
  have e: "distinct qs \<and> length qs = 11 \<longrightarrow> foldl updateHistory [] qs = tl qs"
    using d by (simp add: drop_Suc)
  have f: "db t = Some s \<and> \<not> loading t \<and> \<not> is_blank (sql c)
        \<and> rt_engine rt (sql c) s = (outcome, s')
        \<and> fst (show_result rt outcome (t\<lparr>db := Some s'\<rparr>, c\<lparr>isExecuting := True\<rparr>)) = Inr ()
        \<longrightarrow> sqlHistory (snd (executeQuery rt (t, c))) = updateHistory (sqlHistory c) (sql c)"
    using executeQuery_history by blast
  from a b c d e f updateHistory_twice show ?thesis by blast
qed

theorem updateHistory_dedup_cap_witness:
  "updateHistory [''a'', ''b''] ''a'' = [''a'', ''b'']
   \<and> updateHistory [''a'', ''b''] ''c'' = [''a'', ''b'', ''c'']
   \<and> foldl updateHistory []
        [''q1'', ''q2'', ''q3'', ''q4'', ''q5'', ''q6'', ''q7'', ''q8'', ''q9'', ''q10'', ''q11'']
      = [''q2'', ''q3'', ''q4'', ''q5'', ''q6'', ''q7'', ''q8'', ''q9'', ''q10'', ''q11'']
   \<and> sqlHistory (snd (executeQuery example_runtime (ready_tab, fresh_console)))
      = [''SELECT * FROM patients;'']"
proof -
  have 1: "updateHistory [''a'', ''b''] ''a'' = [''a'', ''b'']"
    using updateHistory_dedup_cap [of "''a''" "[''a'', ''b'']" "[]"] by simp
  have 2: "updateHistory [''a'', ''b''] ''c'' = [''a'', ''b'', ''c'']"
    using updateHistory_dedup_cap [of "''c''" "[''a'', ''b'']" "[]"] by simp
  have 3: "foldl updateHistory []
        [''q1'', ''q2'', ''q3'', ''q4'', ''q5'', ''q6'', ''q7'', ''q8'', ''q9'', ''q10'', ''q11'']
      = [''q2'', ''q3'', ''q4'', ''q5'', ''q6'', ''q7'', ''q8'', ''q9'', ''q10'', ''q11'']"
    using updateHistory_dedup_cap [of "''x''" "[]"
        "[''q1'', ''q2'', ''q3'', ''q4'', ''q5'', ''q6'', ''q7'', ''q8'', ''q9'', ''q10'', ''q11'']"]
    by simp
  have r: "db ready_tab = Some settings_fixture" "\<not> loading ready_tab"
    "\<not> is_blank (sql fresh_console)"
    "rt_engine example_runtime (sql fresh_console) settings_fixture = (QueryRows [], settings_fixture)"
    by (simp_all add: ready_tab_def fresh_console_def example_runtime_def example_engine_def
        settings_fixture_def)
  have ok: "fst (show_result example_runtime (QueryRows [])
      (ready_tab\<lparr>db := Some settings_fixture\<rparr>, fresh_console\<lparr>isExecuting := True\<rparr>)) = Inr ()"
    by (simp add: show_result_def)
  have h: "updateHistory (sqlHistory fresh_console) (sql fresh_console) = [''SELECT * FROM patients;'']"
    by (simp add: fresh_console_def updateHistory_def slice_last_def)
  have 4: "sqlHistory (snd (executeQuery example_runtime (ready_tab, fresh_console)))
      = [''SELECT * FROM patients;'']"
    using updateHistory_dedup_cap [of "''x''" "[]" "[]" ready_tab settings_fixture fresh_console
        example_runtime "QueryRows []" settings_fixture] r ok h
    by simp
  from 1 2 3 4 show ?thesis by blast
qed

section \<open>Properties of the persistence helper\<close>

lemma upsert_keys:
  "map row_key (upsert k v now rs) =
     (if k \<in> set (map row_key rs) then map row_key rs else map row_key rs @ [k])"
  by (induction rs) auto

lemma upsert_distinct:
  "distinct (map row_key rs) \<Longrightarrow> distinct (map row_key (upsert k v now rs))"
  by (simp add: upsert_keys)

lemma upsert_row_for_key:
  "distinct (map row_key rs) \<Longrightarrow>
   filter (\<lambda>r. row_key r = k) (upsert k v now rs)
     = [\<lparr>row_key = k, row_value = v, row_updated_at = now\<rparr>]"
proof (induction rs)
  case Nil
  then show ?case by simp
next
  case (Cons r rs)
  show ?case
  proof (cases "row_key r = k")
    case True
    then have "k \<notin> row_key ` set rs" using Cons.prems by auto
    then have "filter (\<lambda>r. row_key r = k) rs = []"
      by (auto simp: filter_empty_conv)
    with True show ?thesis by simp
  next
    case False
    with Cons show ?thesis by simp
  qed
qed

lemma upsert_again:
  "distinct (map row_key rs) \<Longrightarrow>
   upsert k v now2 (upsert k v now1 rs) = restamp k now2 (upsert k v now1 rs)"
proof (induction rs)
  case Nil
  then show ?case by (simp add: restamp_def)
next
  case (Cons r rs)
  show ?case
  proof (cases "row_key r = k")
    case True
    then have "k \<notin> row_key ` set rs" using Cons.prems by auto
    then have "map (\<lambda>r. if row_key r = k then r\<lparr>row_updated_at := now2\<rparr> else r) rs = rs"
      by (induction rs) auto
    with True show ?thesis by (simp add: restamp_def)
  next
    case False
    with Cons show ?thesis by (simp add: restamp_def)
  qed
qed

lemma saveToPGlite_known_table:
  "tableName = ''form_persistence'' \<or> tableName = ''sql_settings'' \<Longrightarrow>
   stringValue_of val = Some sv \<Longrightarrow>
   refusal s [key, sv, now] = None \<Longrightarrow>
   \<exists>s'. saveToPGlite (Some s) tableName key val now = (Inr (), Some s')
      \<and> table_of tableName s' = upsert key sv now (table_of tableName s)
      \<and> (\<forall>t. t \<noteq> tableName \<longrightarrow> table_of t s' = table_of t s)
      \<and> patients s' = patients s
      \<and> refusal s' = refusal s"
  by (auto simp: saveToPGlite_def table_of_def)

text \<open>A call whose values the engine refuses is rejected with its error and writes nothing.\<close>

lemma saveToPGlite_refused:
  "tableName = ''form_persistence'' \<or> tableName = ''sql_settings'' \<Longrightarrow>
   stringValue_of val = Some sv \<Longrightarrow>
   refusal s [key, sv, now] = Some err \<Longrightarrow>
   saveToPGlite (Some s) tableName key val now = (Inl err, Some s)"
  by (auto simp: saveToPGlite_def)

lemma saveToPGlite_refuses_nul:
  "\<exists>err. saveToPGlite (Some settings_fixture) ''sql_settings'' ''last_query''
            (Prim (PStr [CHR ''a'', CHR 0x00])) ''t1'' = (Inl err, Some settings_fixture)"
  by (simp add: saveToPGlite_def settings_fixture_def pg_refusal_def)

lemma save_repeatedly_snoc:
  "save_repeatedly tableName key val (nows @ [now]) h =
     snd (saveToPGlite (save_repeatedly tableName key val nows h) tableName key val now)"
  by (simp add: save_repeatedly_def)

lemma save_repeatedly_table:
  assumes tn: "tableName = ''form_persistence'' \<or> tableName = ''sql_settings''"
    and sv: "stringValue_of val = Some sv"
    and pk: "distinct (map row_key (table_of tableName s))"
  shows "(\<forall>now \<in> set nows. refusal s [key, sv, now] = None) \<Longrightarrow>
      \<exists>s'. save_repeatedly tableName key val nows (Some s) = Some s'
      \<and> refusal s' = refusal s
      \<and> distinct (map row_key (table_of tableName s'))
      \<and> (nows \<noteq> [] \<longrightarrow> filter (\<lambda>r. row_key r = key) (table_of tableName s')
            = [\<lparr>row_key = key, row_value = sv, row_updated_at = last nows\<rparr>])"
proof (induction nows rule: rev_induct)
  case Nil
  show ?case using pk by (simp add: save_repeatedly_def)
next
  case (snoc now nows)
  then obtain s1 where s1: "save_repeatedly tableName key val nows (Some s) = Some s1"
    and r1: "refusal s1 = refusal s"
    and d1: "distinct (map row_key (table_of tableName s1))" by auto
  have "refusal s1 [key, sv, now] = None" using snoc.prems r1 by simp
  from saveToPGlite_known_table [OF tn sv this]
  obtain s2 where s2: "saveToPGlite (Some s1) tableName key val now = (Inr (), Some s2)"
    and t2: "table_of tableName s2 = upsert key sv now (table_of tableName s1)"
    and r2: "refusal s2 = refusal s1" by blast
  have "save_repeatedly tableName key val (nows @ [now]) (Some s) = Some s2"
    by (simp add: save_repeatedly_snoc s1 s2)
  moreover have "distinct (map row_key (table_of tableName s2))"
    using d1 t2 by (simp add: upsert_distinct)
  moreover have "filter (\<lambda>r. row_key r = key) (table_of tableName s2)
            = [\<lparr>row_key = key, row_value = sv, row_updated_at = now\<rparr>]"
    using d1 t2 by (simp add: upsert_row_for_key)
  ultimately show ?case using r1 r2 by simp
qed

text \<open>
  C5. Saving the same value under the same key of the same table twice leaves the store as
  one call left it, except for the time stamp of that key's row; after any positive number
  of such calls the table holds exactly one row for the key, with the serialised value and
  the time of the last call. Stated for an open store, a table the helper knows, a value
  that serialises and whose numbers JavaScript writes with all their digits, a table whose
  keys are unique (the primary key), and an engine that takes the values of each call.
\<close>

theorem saveToPGlite_idempotent:
  assumes tn: "tableName = ''form_persistence'' \<or> tableName = ''sql_settings''"
    and sv: "stringValue_of val = Some sv"
    and safe: "safe_numbers val"
    and pk: "distinct (map row_key (table_of tableName s))"
    and taken: "\<forall>now \<in> set (now1 # now2 # nows). refusal s [key, sv, now] = None"
  shows "\<exists>s1 s2. saveToPGlite (Some s) tableName key val now1 = (Inr (), Some s1)
      \<and> saveToPGlite (Some s1) tableName key val now2 = (Inr (), Some s2)
      \<and> table_of tableName s2 = restamp key now2 (table_of tableName s1)
      \<and> (\<forall>t. t \<noteq> tableName \<longrightarrow> table_of t s2 = table_of t s1)
      \<and> patients s2 = patients s1
      \<and> (nows \<noteq> [] \<longrightarrow>
           (\<exists>s'. save_repeatedly tableName key val nows (Some s) = Some s'
              \<and> filter (\<lambda>r. row_key r = key) (table_of tableName s')
                  = [\<lparr>row_key = key, row_value = sv, row_updated_at = last nows\<rparr>]))"
proof -
  have a1: "refusal s [key, sv, now1] = None" using taken by simp
  from saveToPGlite_known_table [OF tn sv a1]
  obtain s1 where s1: "saveToPGlite (Some s) tableName key val now1 = (Inr (), Some s1)"
    and t1: "table_of tableName s1 = upsert key sv now1 (table_of tableName s)"
    and r1: "refusal s1 = refusal s" by blast
  have a2: "refusal s1 [key, sv, now2] = None" using taken r1 by simp
  from saveToPGlite_known_table [OF tn sv a2]
  obtain s2 where s2: "saveToPGlite (Some s1) tableName key val now2 = (Inr (), Some s2)"
    and t2: "table_of tableName s2 = upsert key sv now2 (table_of tableName s1)"
    and o2: "\<forall>t. t \<noteq> tableName \<longrightarrow> table_of t s2 = table_of t s1"
    and p2: "patients s2 = patients s1" by blast
  have "table_of tableName s2 = restamp key now2 (table_of tableName s1)"
    using t1 t2 pk by (simp add: upsert_again)
  moreover have "\<forall>now \<in> set nows. refusal s [key, sv, now] = None" using taken by simp
  ultimately show ?thesis
    using s1 s2 o2 p2 save_repeatedly_table [OF tn sv pk, of nows key] by blast
qed

theorem saveToPGlite_idempotent_witness:
  "\<exists>s1 s2. saveToPGlite (Some settings_fixture) ''sql_settings'' ''last_query''
        (Prim (PStr ''SELECT 2'')) ''t1'' = (Inr (), Some s1)
      \<and> saveToPGlite (Some s1) ''sql_settings'' ''last_query'' (Prim (PStr ''SELECT 2'')) ''t2''
          = (Inr (), Some s2)
      \<and> table_of ''sql_settings'' s2 = restamp ''last_query'' ''t2'' (table_of ''sql_settings'' s1)
      \<and> (\<exists>s'. save_repeatedly ''sql_settings'' ''last_query'' (Prim (PStr ''SELECT 2''))
                [''t1'', ''t2'', ''t3''] (Some settings_fixture) = Some s'
            \<and> filter (\<lambda>r. row_key r = ''last_query'') (table_of ''sql_settings'' s')
                = [\<lparr>row_key = ''last_query'', row_value = ''SELECT 2'', row_updated_at = ''t3''\<rparr>])"
proof -
  have tn: "''sql_settings'' = ''form_persistence'' \<or> ''sql_settings'' = ''sql_settings''"
    by simp
  have sv: "stringValue_of (Prim (PStr ''SELECT 2'')) = Some ''SELECT 2''"
    by simp
  have safe: "safe_numbers (Prim (PStr ''SELECT 2''))"
    by simp
  have pk: "distinct (map row_key (table_of ''sql_settings'' settings_fixture))"
    by (simp add: settings_fixture_def table_of_def)
  have taken: "\<forall>now \<in> set (''t1'' # ''t2'' # [''t1'', ''t2'', ''t3'']).
      refusal settings_fixture [''last_query'', ''SELECT 2'', now] = None"
    by (simp add: settings_fixture_def pg_refusal_def)
  have ne: "[''t1'', ''t2'', ''t3''] \<noteq> []" and l: "last [''t1'', ''t2'', ''t3''] = ''t3''"
    by simp_all
  from saveToPGlite_idempotent [OF tn sv safe pk taken]
  show ?thesis unfolding l using ne by blast
qed

text \<open>
  C10. With no store handle the helper returns successfully and writes nothing. For a
  table name other than \<^verbatim>\<open>form_persistence\<close> and \<^verbatim>\<open>sql_settings\<close> the store is left as it was
  in every case, and the call returns successfully whenever the value serialises; the
  value is serialised before the table name is looked at, so a value that
  \<^verbatim>\<open>JSON.stringify\<close> rejects makes the call fail for such a table name too.
\<close>

theorem saveToPGlite_frame:
  "saveToPGlite None tableName key val now = (Inr (), None)
   \<and> (tableName \<noteq> ''form_persistence'' \<and> tableName \<noteq> ''sql_settings'' \<longrightarrow>
        snd (saveToPGlite h tableName key val now) = h
        \<and> (stringValue_of val \<noteq> None \<longrightarrow> saveToPGlite h tableName key val now = (Inr (), h))
        \<and> (stringValue_of val = None \<and> h \<noteq> None \<longrightarrow>
              (\<exists>e. fst (saveToPGlite h tableName key val now) = Inl e)))"
  by (auto simp: saveToPGlite_def split: option.splits)

theorem saveToPGlite_frame_witness:
  "saveToPGlite (Some settings_fixture) ''patients'' ''k'' (JArr [Prim (PStr ''x'')]) ''t1''
     = (Inr (), Some settings_fixture)"
  using saveToPGlite_frame [of "''patients''" "''k''" "JArr [Prim (PStr ''x'')]" "''t1''" "Some settings_fixture"]
  by simp

text \<open>
  An unknown table name with a value that holds a \<^verbatim>\<open>bigint\<close>: the call is rejected with the
  \<^verbatim>\<open>TypeError\<close> of \<^verbatim>\<open>JSON.stringify\<close>.
\<close>

theorem saveToPGlite_unknown_table_raises:
  "fst (saveToPGlite (Some settings_fixture) ''patients'' ''k''
         (JObj [(''count'', Prim (PBigInt 9007199254740993))]) ''t1'')
     = Inl (TypeError ''Do not know how to serialize a BigInt'')"
  by (simp add: saveToPGlite_def)

section \<open>Properties of patient registration\<close>


lemma saveFormData_keeps [simp]:
  "db (saveFormData vals t) = db t" "channel (saveFormData vals t) = channel t"
  "toasts (saveFormData vals t) = toasts t" "loading (saveFormData vals t) = loading t"
  by (simp_all add: saveFormData_def split: option.splits)





section \<open>Properties of the SQL console\<close>

lemma indexOf_lower: "- 1 \<le> indexOf x xs"
  by (induction xs) (auto simp: Let_def)

lemma indexOf_absent: "indexOf x xs = - 1 \<longleftrightarrow> x \<notin> set xs"
proof (induction xs)
  case Nil
  then show ?case by simp
next
  case (Cons y ys)
  have "indexOf x ys + 1 \<noteq> - 1" using indexOf_lower [of x ys] by arith
  with Cons show ?case by (auto simp: Let_def)
qed

lemma indexOf_nonneg: "x \<in> set xs \<Longrightarrow> 0 \<le> indexOf x xs"
  by (induction xs) (auto simp: Let_def)

lemma indexOf_split:
  "x \<in> set xs \<Longrightarrow>
   xs = take (nat (indexOf x xs)) xs @ [x] @ drop (nat (indexOf x xs + 1)) xs
   \<and> x \<notin> set (take (nat (indexOf x xs)) xs)
   \<and> take (nat (indexOf x xs + 1)) xs = take (nat (indexOf x xs)) xs @ [x]"
proof (induction xs)
  case Nil
  then show ?case by simp
next
  case (Cons y ys)
  show ?case
  proof (cases "y = x")
    case True
    then show ?thesis by simp
  next
    case False
    with Cons.prems have mem: "x \<in> set ys" by simp
    then have nn: "0 \<le> indexOf x ys" by (rule indexOf_nonneg)
    from mem have "indexOf x ys \<noteq> - 1" by (simp add: indexOf_absent)
    with False have i: "indexOf x (y # ys) = indexOf x ys + 1" by (simp add: Let_def)
    have n1: "nat (indexOf x ys + 1) = Suc (nat (indexOf x ys))" using nn by simp
    have n2: "nat (indexOf x ys + 1 + 1) = Suc (nat (indexOf x ys + 1))" using nn by simp
    show ?thesis using Cons.IH [OF mem] False unfolding i n2 n1 by simp
  qed
qed

lemma reorderColumns_after_gender:
  assumes "''date_of_birth'' \<in> set columns" and "''gender'' \<in> set columns"
  shows "\<exists>before after.
           reorderColumns columns = before @ [''gender'', ''age''] @ after
         \<and> filter (\<lambda>col. col \<noteq> ''age'') columns = before @ [''gender''] @ after
         \<and> ''gender'' \<notin> set before"
proof -
  let ?r = "filter (\<lambda>col. col \<noteq> ''age'') columns"
  let ?i = "indexOf ''gender'' ?r"
  have mem: "''gender'' \<in> set ?r" using assms by simp
  then have ne: "?i \<noteq> - 1" by (simp add: indexOf_absent)
  from indexOf_split [OF mem]
  have sp: "?r = take (nat ?i) ?r @ [''gender''] @ drop (nat (?i + 1)) ?r"
    and nb: "''gender'' \<notin> set (take (nat ?i) ?r)"
    and tk: "take (nat (?i + 1)) ?r = take (nat ?i) ?r @ [''gender'']" by blast+
  have "reorderColumns columns = splice_insert (?i + 1) ''age'' ?r"
    using assms ne by (simp add: reorderColumns_def Let_def)
  also have "\<dots> = take (nat ?i) ?r @ [''gender'', ''age''] @ drop (nat (?i + 1)) ?r"
    unfolding splice_insert_def tk by simp
  finally show ?thesis using sp nb by blast
qed

lemma executeQuery_rows_columns:
  assumes "db t = Some s" and "\<not> loading t" and "\<not> is_blank (sql c)"
    and "rt_engine rt (sql c) s = (QueryRows (first # rest), s')"
  shows "resultColumns (snd (executeQuery rt (t, c))) = reorderColumns (Object_keys first)"
  using assms
  by (simp add: executeQuery_def show_result_def record_run_def Let_def
      split: prod.splits sum.splits)

text \<open>
  C4. For a non-empty result the displayed column order is \<open>reorderColumns\<close> of the keys of
  the first row. When the columns include \<^verbatim>\<open>date_of_birth\<close> and \<^verbatim>\<open>gender\<close>, the \<^verbatim>\<open>age\<close> column stands
  immediately after the (first) \<^verbatim>\<open>gender\<close> column and the other columns keep their order;
  when they include \<^verbatim>\<open>date_of_birth\<close> but no \<^verbatim>\<open>gender\<close>, \<^verbatim>\<open>age\<close> is appended at the end; without
  \<^verbatim>\<open>date_of_birth\<close> the columns are left as they are and no \<^verbatim>\<open>age\<close> column is added.
\<close>

theorem reorderColumns_age_position:
  "(''date_of_birth'' \<in> set columns \<and> ''gender'' \<in> set columns \<longrightarrow>
      (\<exists>before after.
           reorderColumns columns = before @ [''gender'', ''age''] @ after
         \<and> filter (\<lambda>col. col \<noteq> ''age'') columns = before @ [''gender''] @ after
         \<and> ''gender'' \<notin> set before))
   \<and> (''date_of_birth'' \<in> set columns \<and> ''gender'' \<notin> set columns \<longrightarrow>
        reorderColumns columns = columns @ [''age''])
   \<and> (''date_of_birth'' \<notin> set columns \<longrightarrow> reorderColumns columns = columns)
   \<and> (db t = Some s \<and> \<not> loading t \<and> \<not> is_blank (sql c)
        \<and> rt_engine rt (sql c) s = (QueryRows (first # rest), s') \<longrightarrow>
        resultColumns (snd (executeQuery rt (t, c))) = reorderColumns (Object_keys first))"
  using reorderColumns_after_gender [of columns] executeQuery_rows_columns [of t s c rt first rest s']
  by (simp add: reorderColumns_def)

text \<open>
  C6. When the engine throws on the user's text, the results, the result columns, the
  headers, the history and the execution time keep their values; the run ends normally
  with \<open>isExecuting\<close> false, and the failure appears as one more notice marked
  destructive.
\<close>

theorem executeQuery_failure_keeps_state:
  assumes "db t = Some s" and "\<not> loading t" and "\<not> is_blank (sql c)"
    and "rt_engine rt (sql c) s = (QueryThrows err, s')"
  shows "executeQuery rt (t, c) =
           (notify \<lparr>destructive = True, title = ''Query failed'',
                    description = error_message err\<rparr> (t\<lparr>db := Some s'\<rparr>),
            c\<lparr>isExecuting := False\<rparr>)
    \<and> results (snd (executeQuery rt (t, c))) = results c
    \<and> resultColumns (snd (executeQuery rt (t, c))) = resultColumns c
    \<and> formattedHeaders (snd (executeQuery rt (t, c))) = formattedHeaders c
    \<and> sqlHistory (snd (executeQuery rt (t, c))) = sqlHistory c
    \<and> executionTime (snd (executeQuery rt (t, c))) = executionTime c
    \<and> \<not> isExecuting (snd (executeQuery rt (t, c)))
    \<and> toasts (fst (executeQuery rt (t, c))) =
         toasts t @ [\<lparr>destructive = True, title = ''Query failed'',
                       description = error_message err\<rparr>]"
  using assms by (simp add: executeQuery_def show_result_def notify_def)

theorem reorderColumns_age_position_witness:
  "reorderColumns [''id'', ''gender'', ''date_of_birth''] = [''id'', ''gender'', ''age'', ''date_of_birth'']
   \<and> reorderColumns [''date_of_birth'', ''id''] = [''date_of_birth'', ''id'', ''age'']
   \<and> reorderColumns [''id'', ''gender''] = [''id'', ''gender'']
   \<and> resultColumns (snd (executeQuery example_runtime (registered_tab, fresh_console))) =
       [''id'', ''first_name'', ''last_name'', ''date_of_birth'', ''gender'', ''age'', ''email'',
        ''phone'', ''address'', ''insurance_provider'', ''insurance_number'',
        ''medical_conditions'', ''medications'', ''allergies'', ''created_at'', ''updated_at'']"
proof -
  have 1: "reorderColumns [''id'', ''gender'', ''date_of_birth'']
      = [''id'', ''gender'', ''age'', ''date_of_birth'']"
    using reorderColumns_age_position [of "[''id'', ''gender'', ''date_of_birth'']"]
    by (auto simp: append_eq_Cons_conv Cons_eq_append_conv)
  have 2: "reorderColumns [''date_of_birth'', ''id''] = [''date_of_birth'', ''id'', ''age'']"
    using reorderColumns_age_position [of "[''date_of_birth'', ''id'']"] by simp
  have 3: "reorderColumns [''id'', ''gender''] = [''id'', ''gender'']"
    using reorderColumns_age_position [of "[''id'', ''gender'']"] by simp
  have e: "rt_engine example_runtime (sql fresh_console)
        (settings_fixture\<lparr>patients := [stored_row ''id-1'' ''2024-06-14T10:00:00.000Z'' jane]\<rparr>)
      = (QueryRows (patient_as_row (stored_row ''id-1'' ''2024-06-14T10:00:00.000Z'' jane) # []),
         settings_fixture\<lparr>patients := [stored_row ''id-1'' ''2024-06-14T10:00:00.000Z'' jane]\<rparr>)"
    by (simp add: example_runtime_def example_engine_def fresh_console_def)
  have b: "\<not> is_blank (sql fresh_console)"
    by (simp add: fresh_console_def)
  have k: "reorderColumns (Object_keys (patient_as_row (stored_row ''id-1'' ''2024-06-14T10:00:00.000Z'' jane)))
      = [''id'', ''first_name'', ''last_name'', ''date_of_birth'', ''gender'', ''age'', ''email'',
        ''phone'', ''address'', ''insurance_provider'', ''insurance_number'',
        ''medical_conditions'', ''medications'', ''allergies'', ''created_at'', ''updated_at'']"
    by (simp add: Object_keys_def patient_as_row_def reorderColumns_def splice_insert_def Let_def)
  have 4: "resultColumns (snd (executeQuery example_runtime (registered_tab, fresh_console))) =
       reorderColumns (Object_keys (patient_as_row (stored_row ''id-1'' ''2024-06-14T10:00:00.000Z'' jane)))"
    using reorderColumns_age_position [of "[]" registered_tab
        "settings_fixture\<lparr>patients := [stored_row ''id-1'' ''2024-06-14T10:00:00.000Z'' jane]\<rparr>"
        fresh_console example_runtime] e b
    by (simp add: registered_tab_def)
  from 1 2 3 4 k show ?thesis by simp
qed

theorem executeQuery_failure_keeps_state_witness:
  "executeQuery example_runtime (registered_tab, fresh_console\<lparr>sql := ''SELEC 1'', results := [ [] ]\<rparr>) =
     (registered_tab\<lparr>toasts := [\<lparr>destructive = True, title = ''Query failed'',
                                   description = ''syntax error''\<rparr>]\<rparr>,
      fresh_console\<lparr>sql := ''SELEC 1'', results := [ [] ]\<rparr>)"
proof -
  have d: "db registered_tab =
      Some (settings_fixture\<lparr>patients := [stored_row ''id-1'' ''2024-06-14T10:00:00.000Z'' jane]\<rparr>)"
    and l: "\<not> loading registered_tab"
    by (simp_all add: registered_tab_def)
  have b: "\<not> is_blank (sql (fresh_console\<lparr>sql := ''SELEC 1'', results := [ [] ]\<rparr>))"
    by simp
  have e: "rt_engine example_runtime (sql (fresh_console\<lparr>sql := ''SELEC 1'', results := [ [] ]\<rparr>))
        (settings_fixture\<lparr>patients := [stored_row ''id-1'' ''2024-06-14T10:00:00.000Z'' jane]\<rparr>)
      = (QueryThrows (DbError ''syntax error''),
         settings_fixture\<lparr>patients := [stored_row ''id-1'' ''2024-06-14T10:00:00.000Z'' jane]\<rparr>)"
    by (simp add: example_runtime_def example_engine_def)
  from executeQuery_failure_keeps_state [OF d l b e]
  show ?thesis by (simp add: notify_def registered_tab_def fresh_console_def)
qed

section \<open>Properties of the hydration\<close>

lemma saved_text_hd:
  "saved_text k s = Some v \<Longrightarrow>
   select_value k (sql_settings s) \<noteq> [] \<and> hd (select_value k (sql_settings s)) = v"
  by (auto simp: saved_text_def split: list.splits)

lemma saved_text_none: "saved_text k s = None \<Longrightarrow> select_value k (sql_settings s) = []"
  by (auto simp: saved_text_def split: list.splits)

lemma hydrate_results_keeps:
  "sql (hydrate_results rt r cl h c) = sql c
   \<and> sqlHistory (hydrate_results rt r cl h c) = sqlHistory c"
  by (simp add: hydrate_results_def Let_def split: option.splits)

lemma loadSavedData_sql:
  assumes "db t = Some s"
  shows "sql (snd (loadSavedData rt (t, c))) =
     (case saved_text ''last_query'' s of None \<Rightarrow> ''SELECT * FROM patients;'' | Some v \<Rightarrow> v)"
  using assms
  by (simp add: loadSavedData_def Let_def saved_text_def hydrate_results_keeps
      split: list.splits option.splits)

lemma loadSavedData_history:
  assumes "db t = Some s"
  shows "sqlHistory (snd (loadSavedData rt (t, c))) =
     (case saved_text ''sql_history'' s of
        None \<Rightarrow> sqlHistory c
      | Some h \<Rightarrow> (case rt_parse_strings rt h of None \<Rightarrow> sqlHistory c | Some history \<Rightarrow> history))"
proof (cases "saved_text ''sql_history'' s")
  case None
  from saved_text_none [OF None] assms show ?thesis
    by (simp add: loadSavedData_def Let_def None hydrate_results_keeps split: list.splits)
next
  case (Some h)
  from saved_text_hd [OF Some] assms show ?thesis
    by (simp add: loadSavedData_def Let_def Some hydrate_results_keeps
        split: list.splits option.splits)
qed

lemma loadSavedData_results_group:
  assumes "db t = Some s"
    and "saved_text ''last_results'' s = Some r"
    and "saved_text ''last_columns'' s = Some cl"
    and "saved_text ''last_headers'' s = Some h"
    and "rt_parse_rows rt r = Some rows"
    and "rt_parse_strings rt cl = Some cols"
    and "rt_parse_headers rt h = Some hs"
  shows "results (snd (loadSavedData rt (t, c))) = rows
     \<and> resultColumns (snd (loadSavedData rt (t, c))) = cols
     \<and> formattedHeaders (snd (loadSavedData rt (t, c))) = hs"
  using assms(1,5-7) saved_text_hd [OF assms(2)] saved_text_hd [OF assms(3)]
    saved_text_hd [OF assms(4)]
  by (simp add: loadSavedData_def Let_def hydrate_results_def split: list.splits option.splits)

lemma loadSavedData_results_rejected:
  assumes "db t = Some s"
    and "saved_text ''last_results'' s = Some r"
    and "rt_parse_rows rt r = None"
  shows "results (snd (loadSavedData rt (t, c))) = results c
     \<and> resultColumns (snd (loadSavedData rt (t, c))) = resultColumns c
     \<and> formattedHeaders (snd (loadSavedData rt (t, c))) = formattedHeaders c"
  using assms(1,3) saved_text_hd [OF assms(2)]
  by (simp add: loadSavedData_def Let_def hydrate_results_def split: list.splits option.splits)

text \<open>
  C7. Hydration on mount in the console with per-field recovery (part_001). The last
  query text is hydrated whatever the other stored texts are. The history is hydrated
  exactly when its text parses, whatever the other texts are: a malformed history entry
  skips the history only. The results, columns and headers are filled in one block:
  when the three texts parse, all three are hydrated, also next to a malformed history;
  when the text of the results is malformed, all three keep their values.
\<close>

theorem loadSavedData_recovery:
  assumes "db t = Some s"
  shows "sql (snd (loadSavedData rt (t, c))) =
       (case saved_text ''last_query'' s of None \<Rightarrow> ''SELECT * FROM patients;'' | Some v \<Rightarrow> v)
   \<and> sqlHistory (snd (loadSavedData rt (t, c))) =
       (case saved_text ''sql_history'' s of
          None \<Rightarrow> sqlHistory c
        | Some h \<Rightarrow>
            (case rt_parse_strings rt h of None \<Rightarrow> sqlHistory c | Some history \<Rightarrow> history))
   \<and> (saved_text ''last_results'' s = Some r \<and> saved_text ''last_columns'' s = Some cl
        \<and> saved_text ''last_headers'' s = Some hd'
        \<and> rt_parse_rows rt r = Some rows \<and> rt_parse_strings rt cl = Some cols
        \<and> rt_parse_headers rt hd' = Some hs \<longrightarrow>
          results (snd (loadSavedData rt (t, c))) = rows
        \<and> resultColumns (snd (loadSavedData rt (t, c))) = cols
        \<and> formattedHeaders (snd (loadSavedData rt (t, c))) = hs)
   \<and> (saved_text ''last_results'' s = Some r \<and> rt_parse_rows rt r = None \<longrightarrow>
          results (snd (loadSavedData rt (t, c))) = results c
        \<and> resultColumns (snd (loadSavedData rt (t, c))) = resultColumns c
        \<and> formattedHeaders (snd (loadSavedData rt (t, c))) = formattedHeaders c)"
  using loadSavedData_sql [OF assms] loadSavedData_history [OF assms]
    loadSavedData_results_group [OF assms] loadSavedData_results_rejected [OF assms]
  by blast

lemma example_texts:
  "rt_parse_rows example_runtime ''[{}]'' = Some [ [] ]"
  "rt_parse_rows example_runtime ''{bad'' = None"
  "rt_parse_strings example_runtime ''{bad'' = None"
  "rt_parse_strings example_runtime ''[]'' = Some []"
  "rt_parse_strings example_runtime columns_text = Some [''id'']"
  "rt_parse_headers example_runtime headers_text
     = Some [(''id'', ''Id'')]"
  by (simp_all add: example_runtime_def columns_text_def headers_text_def)

lemma saved_tab_texts:
  "db (saved_tab r h) = Some (saved_store r h)"
  "saved_text ''last_query'' (saved_store r h) = Some ''SELECT 1''"
  "saved_text ''last_results'' (saved_store r h) = Some r"
  "saved_text ''last_columns'' (saved_store r h) = Some columns_text"
  "saved_text ''last_headers'' (saved_store r h) = Some headers_text"
  "saved_text ''sql_history'' (saved_store r h) = Some h"
  by (simp_all add: saved_tab_def saved_store_def saved_text_def select_value_def setting_def)

theorem loadSavedData_recovery_witness:
  "sql (snd (loadSavedData example_runtime (saved_tab ''[{}]'' ''{bad'', initial_console))) = ''SELECT 1''
   \<and> sqlHistory (snd (loadSavedData example_runtime (saved_tab ''[{}]'' ''{bad'', initial_console))) = []
   \<and> results (snd (loadSavedData example_runtime (saved_tab ''[{}]'' ''{bad'', initial_console))) = [ [] ]
   \<and> resultColumns (snd (loadSavedData example_runtime (saved_tab ''[{}]'' ''{bad'', initial_console)))
       = [''id'']
   \<and> formattedHeaders (snd (loadSavedData example_runtime (saved_tab ''[{}]'' ''{bad'', initial_console)))
       = [(''id'', ''Id'')]"
  using loadSavedData_recovery [OF saved_tab_texts(1), of example_runtime "''[{}]''" "''{bad''"
      initial_console "''[{}]''" columns_text
      headers_text "[ [] ]" "[''id'']"
      "[(''id'', ''Id'')]"]
  by (simp add: saved_tab_texts example_texts initial_console_def)

text \<open>
  One malformed entry, more than one field skipped. With only \<^verbatim>\<open>last_results\<close> malformed, the
  saved and well-formed columns and headers are not hydrated (part_001); with only
  \<^verbatim>\<open>sql_history\<close> malformed, SqlConsole.tsx hydrates neither the query text nor the results.
\<close>

theorem loadSavedData_one_malformed_skips_others:
  "rt_parse_rows example_runtime ''{bad'' = None
   \<and> rt_parse_strings example_runtime columns_text = Some [''id'']
   \<and> rt_parse_headers example_runtime headers_text
       = Some [(''id'', ''Id'')]
   \<and> resultColumns (snd (on_mount example_runtime (saved_tab ''{bad'' ''[]'', initial_console))) = []
   \<and> formattedHeaders (snd (on_mount example_runtime (saved_tab ''{bad'' ''[]'', initial_console))) = []
   \<and> sql (snd (loadSavedData_SqlConsole_tsx example_runtime
              (saved_tab ''[{}]'' ''{bad'', initial_console))) = ''''
   \<and> results (snd (loadSavedData_SqlConsole_tsx example_runtime
              (saved_tab ''[{}]'' ''{bad'', initial_console))) = []"
  by (simp add: example_texts on_mount_def loadSavedData_def loadSavedData_SqlConsole_tsx_def
      saved_tab_def saved_store_def select_value_def setting_def hydrate_results_def
      initial_console_def Let_def)

section \<open>Properties of the autosave\<close>

lemma keystroke_armed:
  assumes "ed_timer e = None \<or> armed e" and "gap < 500" and "v \<noteq> ed_sql e"
  shows "armed (setSql v (elapse stamp gap e))
     \<and> ed_sql (setSql v (elapse stamp gap e)) = v
     \<and> ed_db (setSql v (elapse stamp gap e)) = ed_db e
     \<and> ed_saved (setSql v (elapse stamp gap e)) = ed_saved e"
  using assms by (auto simp: armed_def setSql_def elapse_def split: option.splits if_splits)

lemma typing_armed:
  assumes "ed_timer e = None \<or> armed e"
    and "\<forall>k \<in> set ks. fst k < 500"
    and "each_changes (ed_sql e) (map snd ks)"
    and "ks \<noteq> []"
  shows "armed (typing stamp ks e)
     \<and> ed_sql (typing stamp ks e) = snd (last ks)
     \<and> ed_db (typing stamp ks e) = ed_db e
     \<and> ed_saved (typing stamp ks e) = ed_saved e"
  using assms
proof (induction ks arbitrary: e)
  case Nil
  then show ?case by simp
next
  case (Cons k ks)
  let ?e1 = "setSql (snd k) (elapse stamp (fst k) e)"
  have g: "fst k < 500" and ch: "snd k \<noteq> ed_sql e" using Cons.prems by simp_all
  from keystroke_armed [OF Cons.prems(1) g ch, of stamp]
  have a1: "armed ?e1" and s1: "ed_sql ?e1 = snd k" and d1: "ed_db ?e1 = ed_db e"
    and w1: "ed_saved ?e1 = ed_saved e" by blast+
  show ?case
  proof (cases "ks = []")
    case True
    with a1 s1 d1 w1 show ?thesis by simp
  next
    case False
    have "\<forall>k \<in> set ks. fst k < 500" using Cons.prems by simp
    moreover have "each_changes (ed_sql ?e1) (map snd ks)" using Cons.prems s1 by simp
    ultimately have "armed (typing stamp ks ?e1)
       \<and> ed_sql (typing stamp ks ?e1) = snd (last ks)
       \<and> ed_db (typing stamp ks ?e1) = ed_db ?e1
       \<and> ed_saved (typing stamp ks ?e1) = ed_saved ?e1"
      using Cons.IH [of ?e1] a1 False by blast
    with False d1 w1 show ?thesis by simp
  qed
qed

lemma quiet_after_armed:
  assumes "armed e" and "500 \<le> quiet"
  shows "ed_saved (elapse stamp quiet e) =
           ed_saved e @ (if ed_sql e \<noteq> [] \<and> ed_db e \<noteq> None then [ed_sql e] else [])
     \<and> ed_timer (elapse stamp quiet e) = None
     \<and> ed_db (elapse stamp quiet e) =
         (if ed_sql e \<noteq> [] \<and> ed_db e \<noteq> None
          then snd (saveToPGlite (ed_db e) ''sql_settings'' ''last_query'' (Prim (PStr (ed_sql e)))
                 (stamp (ed_clock e + 500)))
          else ed_db e)"
  using assms by (auto simp: armed_def elapse_def split: option.splits if_splits)

lemma no_timer_no_write:
  "ed_timer e = None \<Longrightarrow> ed_saved (elapse stamp n e) = ed_saved e"
  by (simp add: elapse_def)

lemma stringify_optional_member:
  "stringify_members (optional_member k x @ ms) =
     (case stringify_members ms of None \<Rightarrow> None
      | Some ts \<Rightarrow> Some ((case x of None \<Rightarrow> [] | Some s \<Rightarrow> [quote_json k @ '':'' @ quote_json s]) @ ts))"
  by (cases x) (auto simp: optional_member_def split: option.splits)

lemma values_object_serialises: "\<exists>text. JSON_stringify (values_object vals) = Some text"
  by (simp add: values_object_def stringify_optional_member optional_member_def
      split: option.splits)

lemma form_change_written:
  "\<exists>text. JSON_stringify (values_object vals) = Some text
      \<and> localStorage (fst (form_change vals tf)) STORAGE_KEY = Some text"
  using values_object_serialises [of vals]
  by (auto simp: form_change_def saveFormData_def)

text \<open>
  C8. The console text (part_001): for every run of edits that starts with no write
  pending, in which each edit changes the text and follows the previous one by less than
  500 ms, nothing is written during the run and the pending timer is the one set by the
  last edit, due 500 ms after it; after 500 ms or more without an edit exactly
  one write has happened, of the final text, and no later one follows; the store then
  holds the final text under \<^verbatim>\<open>last_query\<close>, the engine taking it. When the final text is
  empty, or the store is not open, no write happens at all. The patient form
  (PatientForm.tsx): every change of a field is written to local storage at once, with no
  delay.
\<close>

theorem autosave_debounced:
  assumes start: "ed_timer e = None"
    and gaps: "\<forall>k \<in> set ks. fst k < 500"
    and changes: "each_changes (ed_sql e) (map snd ks)"
    and ne: "ks \<noteq> []"
    and quiet: "500 \<le> quiet"
  shows "ed_saved (typing stamp ks e) = ed_saved e
     \<and> ed_sql (typing stamp ks e) = snd (last ks) \<and> armed (typing stamp ks e)
     \<and> ed_saved (elapse stamp quiet (typing stamp ks e)) =
         ed_saved e @ (if snd (last ks) \<noteq> [] \<and> ed_db e \<noteq> None then [snd (last ks)] else [])
     \<and> ed_saved (elapse stamp later (elapse stamp quiet (typing stamp ks e))) =
         ed_saved (elapse stamp quiet (typing stamp ks e))
     \<and> (ed_db e = Some s \<and> distinct (map row_key (sql_settings s)) \<and> snd (last ks) \<noteq> []
          \<and> refusal s [''last_query'', snd (last ks),
                          stamp (ed_clock (typing stamp ks e) + 500)] = None \<longrightarrow>
          (\<exists>s'. ed_db (elapse stamp quiet (typing stamp ks e)) = Some s'
             \<and> select_value ''last_query'' (sql_settings s') = [snd (last ks)]))
     \<and> (\<exists>text. JSON_stringify (values_object vals) = Some text
          \<and> localStorage (fst (form_change vals tf)) STORAGE_KEY = Some text)"
proof -
  let ?e = "typing stamp ks e"
  from typing_armed [of e ks stamp] start gaps changes ne
  have a: "armed ?e" and s: "ed_sql ?e = snd (last ks)" and d: "ed_db ?e = ed_db e"
    and w: "ed_saved ?e = ed_saved e" by blast+
  from quiet_after_armed [OF a quiet, of stamp]
  have w2: "ed_saved (elapse stamp quiet ?e) =
         ed_saved e @ (if snd (last ks) \<noteq> [] \<and> ed_db e \<noteq> None then [snd (last ks)] else [])"
    and t2: "ed_timer (elapse stamp quiet ?e) = None"
    and d2: "ed_db (elapse stamp quiet ?e) =
         (if snd (last ks) \<noteq> [] \<and> ed_db e \<noteq> None
          then snd (saveToPGlite (ed_db e) ''sql_settings'' ''last_query''
                 (Prim (PStr (snd (last ks)))) (stamp (ed_clock ?e + 500)))
          else ed_db e)"
    unfolding s d w by blast+
  have w3: "ed_saved (elapse stamp later (elapse stamp quiet ?e)) = ed_saved (elapse stamp quiet ?e)"
    using t2 by (rule no_timer_no_write)
  have st: "ed_db e = Some s \<and> distinct (map row_key (sql_settings s)) \<and> snd (last ks) \<noteq> []
          \<and> refusal s [''last_query'', snd (last ks), stamp (ed_clock ?e + 500)] = None \<longrightarrow>
          (\<exists>s'. ed_db (elapse stamp quiet ?e) = Some s'
             \<and> select_value ''last_query'' (sql_settings s') = [snd (last ks)])"
  proof
    assume h: "ed_db e = Some s \<and> distinct (map row_key (sql_settings s)) \<and> snd (last ks) \<noteq> []
          \<and> refusal s [''last_query'', snd (last ks), stamp (ed_clock ?e + 500)] = None"
    then have "ed_db (elapse stamp quiet ?e) =
        Some (s\<lparr>sql_settings := upsert ''last_query'' (snd (last ks)) (stamp (ed_clock ?e + 500))
                 (sql_settings s)\<rparr>)"
      using d2 by (simp add: saveToPGlite_def)
    moreover have "select_value ''last_query''
        (upsert ''last_query'' (snd (last ks)) (stamp (ed_clock ?e + 500)) (sql_settings s))
        = [snd (last ks)]"
      using h by (simp add: select_value_def upsert_row_for_key)
    ultimately show "\<exists>s'. ed_db (elapse stamp quiet ?e) = Some s'
             \<and> select_value ''last_query'' (sql_settings s') = [snd (last ks)]"
      by simp
  qed
  from a s w w2 w3 st form_change_written [of vals tf] show ?thesis by blast
qed

theorem autosave_debounced_witness:
  "ed_saved (typing (\<lambda>n. ''2024-06-14T10:00:00.000Z'')
       [(0, ''SELECT 12''), (120, ''SELECT 123''), (499, ''SELECT 1234'')] idle_editor) = []
   \<and> ed_saved (elapse (\<lambda>n. ''2024-06-14T10:00:00.000Z'') 500
        (typing (\<lambda>n. ''2024-06-14T10:00:00.000Z'')
           [(0, ''SELECT 12''), (120, ''SELECT 123''), (499, ''SELECT 1234'')] idle_editor))
       = [''SELECT 1234'']
   \<and> (\<exists>s'. ed_db (elapse (\<lambda>n. ''2024-06-14T10:00:00.000Z'') 500
        (typing (\<lambda>n. ''2024-06-14T10:00:00.000Z'')
           [(0, ''SELECT 12''), (120, ''SELECT 123''), (499, ''SELECT 1234'')] idle_editor)) = Some s'
         \<and> select_value ''last_query'' (sql_settings s') = [''SELECT 1234''])"
proof -
  have start: "ed_timer idle_editor = None"
    and d: "ed_db idle_editor = Some settings_fixture"
    and w: "ed_saved idle_editor = []"
    by (simp_all add: idle_editor_def)
  have gaps: "\<forall>k \<in> set [(0, ''SELECT 12''), (120, ''SELECT 123''), (499::nat, ''SELECT 1234'')].
      fst k < 500"
    by simp
  have changes: "each_changes (ed_sql idle_editor)
      (map snd [(0::nat, ''SELECT 12''), (120, ''SELECT 123''), (499, ''SELECT 1234'')])"
    by (simp add: idle_editor_def)
  have ne: "[(0::nat, ''SELECT 12''), (120, ''SELECT 123''), (499, ''SELECT 1234'')] \<noteq> []"
    by simp
  have pk: "distinct (map row_key (sql_settings settings_fixture))"
    by (simp add: settings_fixture_def)
  have tk: "refusal settings_fixture [''last_query'', ''SELECT 1234'', ''2024-06-14T10:00:00.000Z'']
      = None"
    by (simp add: settings_fixture_def pg_refusal_def)
  have l: "snd (last [(0::nat, ''SELECT 12''), (120, ''SELECT 123''), (499, ''SELECT 1234'')])
      = ''SELECT 1234''"
    by simp
  from autosave_debounced [OF start gaps changes ne, of 500 "\<lambda>n. ''2024-06-14T10:00:00.000Z''"
      0 settings_fixture typed_J "(ready_tab, blank_form)"]
  show ?thesis unfolding l d w using pk tk by simp
qed

text \<open>
  One keystroke in the patient form is in local storage at once, before any delay and
  before the next keystroke; and a run of console edits that ends with the empty text is
  followed by no write.
\<close>

theorem every_form_change_is_written:
  "localStorage ready_tab STORAGE_KEY = None
   \<and> localStorage (fst (form_change typed_J (ready_tab, blank_form))) STORAGE_KEY =
       JSON_stringify (values_object typed_J)
   \<and> JSON_stringify (values_object typed_J) \<noteq> None
   \<and> ed_saved (elapse (\<lambda>n. ''2024-06-14T10:00:00.000Z'') 500
        (typing (\<lambda>n. ''2024-06-14T10:00:00.000Z'') [(0, ''SELECT 12''), (120, [])] idle_editor)) = []"
proof -
  have 1: "localStorage ready_tab STORAGE_KEY = None"
    by (simp add: ready_tab_def)
  obtain json where t: "JSON_stringify (values_object typed_J) = Some json"
    using values_object_serialises by blast
  then have 2: "localStorage (fst (form_change typed_J (ready_tab, blank_form))) STORAGE_KEY =
       JSON_stringify (values_object typed_J)"
    by (simp add: form_change_def saveFormData_def)
  have 3: "ed_saved (elapse (\<lambda>n. ''2024-06-14T10:00:00.000Z'') 500
        (typing (\<lambda>n. ''2024-06-14T10:00:00.000Z'') [(0, ''SELECT 12''), (120, [])] idle_editor)) = []"
    by (simp add: idle_editor_def elapse_def setSql_def)
  from 1 2 3 t show ?thesis by simp
qed

section \<open>The patients table over runs of operations\<close>


lemma holds_notify [simp]: "holds_patients ps (notify n t) = holds_patients ps t"
  by (simp add: holds_patients_def notify_def)

lemma holds_broadcast [simp]:
  "holds_patients ps (broadcastChange ty data ts t) = holds_patients ps t"
  by (simp add: holds_patients_def broadcastChange_def split: option.splits)





















end
